theory Spec2Isabelle
  imports Main "HOL-Library.AList" "HOL-Library.Char_ord" "HOL-Library.List_Lexorder" "HOL-Library.Product_Lexorder"
begin

section \<open>Strings of the host language\<close>

text \<open>
  Strings are well-formed UTF-8 byte strings. The tests against ASCII literals
  (\<open>startsWith\<close>, \<open>endsWith\<close>, \<open>includes\<close>, equality, \<open>split\<close>) are the same on
  bytes as on UTF-16 code units; lengths and slices, which JavaScript counts in code
  units, are \<open>utf16Length\<close> and \<open>sliceTo\<close> below.
\<close>

fun startsWith :: "string \<Rightarrow> string \<Rightarrow> bool" where
  "startsWith s [] = True"
| "startsWith [] (p # ps) = False"
| "startsWith (c # cs) (p # ps) = (c = p \<and> startsWith cs ps)"

fun includesStr :: "string \<Rightarrow> string \<Rightarrow> bool" where
  "includesStr [] needle = (needle = [])"
| "includesStr (c # cs) needle = (startsWith (c # cs) needle \<or> includesStr cs needle)"

definition endsWith :: "string \<Rightarrow> string \<Rightarrow> bool" where
  "endsWith s p = startsWith (rev s) (rev p)"


definition nl :: string where
  "nl = [CHR 0x0A]"

text \<open>\<open>xs.join(sep)\<close>.\<close>

fun joinWith :: "string \<Rightarrow> string list \<Rightarrow> string" where
  "joinWith sep [] = []"
| "joinWith sep [x] = x"
| "joinWith sep (x # y # ys) = x @ sep @ joinWith sep (y # ys)"

text \<open>\<open>s.split(c)\<close> for a one-character separator: never the empty list.\<close>

fun splitOn :: "char \<Rightarrow> string \<Rightarrow> string list" where
  "splitOn c [] = [[]]"
| "splitOn c (x # xs) =
     (if x = c then [] # splitOn c xs
      else (case splitOn c xs of
              [] \<Rightarrow> [[x]]
            | l # ls \<Rightarrow> (x # l) # ls))"

text \<open>\<open>xs.slice(-n)\<close>: the last \<open>n\<close> elements.\<close>

definition sliceLast :: "nat \<Rightarrow> 'a list \<Rightarrow> 'a list" where
  "sliceLast n xs = drop (length xs - n) xs"

text \<open>
  The characters \<open>trim\<close> removes, as UTF-8: TAB, LF, VT, FF, CR, SPACE, U+00A0, U+1680,
  U+2000 to U+200A, U+2028, U+2029, U+202F, U+205F, U+3000 and U+FEFF.
\<close>

definition whiteSpaces :: "string list" where
  "whiteSpaces =
     [[CHR 0x09], [CHR 0x0A], [CHR 0x0B], [CHR 0x0C], [CHR 0x0D], [CHR 0x20],
      [CHR 0xC2, CHR 0xA0], [CHR 0xE1, CHR 0x9A, CHR 0x80],
      [CHR 0xE2, CHR 0x80, CHR 0x80], [CHR 0xE2, CHR 0x80, CHR 0x81],
      [CHR 0xE2, CHR 0x80, CHR 0x82], [CHR 0xE2, CHR 0x80, CHR 0x83],
      [CHR 0xE2, CHR 0x80, CHR 0x84], [CHR 0xE2, CHR 0x80, CHR 0x85],
      [CHR 0xE2, CHR 0x80, CHR 0x86], [CHR 0xE2, CHR 0x80, CHR 0x87],
      [CHR 0xE2, CHR 0x80, CHR 0x88], [CHR 0xE2, CHR 0x80, CHR 0x89],
      [CHR 0xE2, CHR 0x80, CHR 0x8A], [CHR 0xE2, CHR 0x80, CHR 0xA8],
      [CHR 0xE2, CHR 0x80, CHR 0xA9], [CHR 0xE2, CHR 0x80, CHR 0xAF],
      [CHR 0xE2, CHR 0x81, CHR 0x9F], [CHR 0xE3, CHR 0x80, CHR 0x80],
      [CHR 0xEF, CHR 0xBB, CHR 0xBF]]"

text \<open>Removes from the front of a string every leading occurrence of one of the sequences.\<close>

fun stripLeading :: "string list \<Rightarrow> string \<Rightarrow> string" where
  "stripLeading seqs [] = []"
| "stripLeading seqs (c # cs) =
     (case find (\<lambda>ws. ws \<noteq> [] \<and> startsWith (c # cs) ws) seqs of
        None \<Rightarrow> c # cs
      | Some ws \<Rightarrow> stripLeading seqs (drop (length ws - 1) cs))"

text \<open>\<open>s.trim()\<close>: white space and line terminators are removed at both ends.\<close>

definition trim :: "string \<Rightarrow> string" where
  "trim s = rev (stripLeading (map rev whiteSpaces) (rev (stripLeading whiteSpaces s)))"

text \<open>
  \<open>s.toLowerCase()\<close> follows the Unicode case mappings of the host; the functions that
  call it take it as the parameter \<open>toLowerCase\<close>. On ASCII strings it is this function,
  which the concrete runs below use.
\<close>

definition asciiLowerChar :: "char \<Rightarrow> char" where
  "asciiLowerChar c =
     (if CHR ''A'' \<le> c \<and> c \<le> CHR ''Z'' then char_of (of_char c + (32::nat)) else c)"

definition asciiToLowerCase :: "string \<Rightarrow> string" where
  "asciiToLowerCase s = map asciiLowerChar s"

text \<open>
  \<open>s.length\<close>, the number of UTF-16 code units: every character counts one, except
  those of four bytes, which count two. Continuation bytes count nothing.
\<close>

definition isContinuation :: "char \<Rightarrow> bool" where
  "isContinuation c = (CHR 0x80 \<le> c \<and> c \<le> CHR 0xBF)"

fun utf16Length :: "string \<Rightarrow> nat" where
  "utf16Length [] = 0"
| "utf16Length (c # cs) =
     (if isContinuation c then 0 else if CHR 0xF0 \<le> c then 2 else 1) + utf16Length cs"

text \<open>The number of bytes of the character that starts with the byte \<open>c\<close>.\<close>

definition charBytes :: "char \<Rightarrow> nat" where
  "charBytes c =
     (if c < CHR 0xC0 then 1 else if c < CHR 0xE0 then 2 else if c < CHR 0xF0 then 3 else 4)"

text \<open>
  \<open>s.slice(0, n)\<close>, counted in UTF-16 code units. A cut through the middle of a
  character of two units leaves an unpaired surrogate, which is written to a file as
  U+FFFD; it is that character here.
\<close>

fun sliceTo :: "nat \<Rightarrow> string \<Rightarrow> string" where
  "sliceTo n [] = []"
| "sliceTo n (c # cs) =
     (if n = 0 then []
      else if CHR 0xF0 \<le> c
      then (if n = 1 then [CHR 0xEF, CHR 0xBF, CHR 0xBD]
            else c # take 3 cs @ sliceTo (n - 2) (drop 3 cs))
      else c # take (charBytes c - 1) cs @ sliceTo (n - 1) (drop (charBytes c - 1) cs))"

text \<open>
  \<open>path.join\<close> of POSIX: the arguments that are not empty are joined with a slash and
  the result is normalised. Empty segments and \<open>.\<close> are dropped, \<open>..\<close> removes the
  segment before it (above the start of a relative path it is kept, above the root it
  is dropped), and a trailing slash is kept.
\<close>

definition normalizeStep :: "bool \<Rightarrow> string list \<Rightarrow> string \<Rightarrow> string list" where
  "normalizeStep allowAboveRoot res seg =
     (if seg = [] \<or> seg = ''.'' then res
      else if seg = ''..''
      then (if res \<noteq> [] \<and> last res \<noteq> ''..'' then butlast res
            else if allowAboveRoot then res @ [''..'']
            else res)
      else res @ [seg])"

definition normalize :: "string \<Rightarrow> string" where
  "normalize p =
     (if p = [] then ''.''
      else (let isAbsolute = (hd p = CHR ''/'');
                trailingSeparator = (last p = CHR ''/'');
                res = joinWith ''/'' (foldl (normalizeStep (\<not> isAbsolute)) [] (splitOn CHR ''/'' p))
            in if res = []
               then (if isAbsolute then ''/'' else if trailingSeparator then ''./'' else ''.'')
               else (if isAbsolute then ''/'' else []) @ res
                    @ (if trailingSeparator then ''/'' else [])))"

definition pathJoin :: "string list \<Rightarrow> string" where
  "pathJoin args =
     (let parts = filter (\<lambda>arg. arg \<noteq> []) args
      in if parts = [] then ''.'' else normalize (joinWith ''/'' parts))"

text \<open>Decimal rendering of a natural number, as template strings print it.\<close>

definition digitChar :: "nat \<Rightarrow> char" where
  "digitChar d = ''0123456789'' ! (d mod 10)"

fun showNat :: "nat \<Rightarrow> string" where
  "showNat n = (if n < 10 then [digitChar n] else showNat (n div 10) @ [digitChar n])"

declare showNat.simps [simp del]

text \<open>\<open>s.padStart(2, "0")\<close>.\<close>

definition padStart2 :: "string \<Rightarrow> string" where
  "padStart2 s = (if length s < 2 then replicate (2 - length s) CHR ''0'' @ s else s)"

text \<open>A value is falsy when it is missing or the empty string.\<close>

definition truthy :: "string option \<Rightarrow> bool" where
  "truthy v = (case v of None \<Rightarrow> False | Some s \<Rightarrow> s \<noteq> [])"

section \<open>Rotation controller (session-rotation-monitor.js)\<close>

subsection \<open>Exclusion patterns\<close>

text \<open>
  In a regular expression without the \<open>s\<close> flag the dot matches every character but
  the line terminators LF, CR, U+2028 and U+2029 (the last two are three bytes each).
\<close>

definition lineTerminatorAt :: "string \<Rightarrow> bool" where
  "lineTerminatorAt s =
     (startsWith s [CHR 0x0A] \<or> startsWith s [CHR 0x0D]
      \<or> startsWith s [CHR 0xE2, CHR 0x80, CHR 0xA8]
      \<or> startsWith s [CHR 0xE2, CHR 0x80, CHR 0xA9])"

text \<open>\<open>dotStarThen lit s\<close>: the pattern \<open>.*lit\<close> matches a prefix of \<open>s\<close>.\<close>

fun dotStarThen :: "string \<Rightarrow> string \<Rightarrow> bool" where
  "dotStarThen lit [] = (lit = [])"
| "dotStarThen lit (c # cs) =
     (startsWith (c # cs) lit \<or> (\<not> lineTerminatorAt (c # cs) \<and> dotStarThen lit cs))"

text \<open>The test of \<open>/^agent:.*:kind:/\<close> on a key.\<close>

definition agentKindPattern :: "string \<Rightarrow> string \<Rightarrow> bool" where
  "agentKindPattern kind k =
     (startsWith k ''agent:'' \<and> dotStarThen ('':'' @ kind @ '':'') (drop 6 k))"

definition SKIP_PATTERNS :: "(string \<Rightarrow> bool) list" where
  "SKIP_PATTERNS = [agentKindPattern ''cron'', agentKindPattern ''subagent'']"

definition matchesSkipPattern :: "string \<Rightarrow> bool" where
  "matchesSkipPattern k = list_ex (\<lambda>pattern. pattern k) SKIP_PATTERNS"

subsection \<open>Sessions and the gateway\<close>

text \<open>
  A session descriptor as the registry returns it; a field that is missing is \<open>None\<close>.
\<close>

record session =
  key :: "string option"
  sessionId :: "string option"
  totalTokens :: "int option"

datatype 'a call = Throws string | Returns 'a

record resetReply =
  ok :: bool
  resetEntry :: "string option option"

text \<open>
  The gateway client is a collaborator: \<open>sessionsList\<close> is the reply to
  \<open>sessions.list\<close> (its \<open>sessions\<close> field may be missing), \<open>sessionsReset\<close> the
  reply to \<open>sessions.reset\<close> for a key.
\<close>

record gateway =
  sessionsList :: "session list option call"
  sessionsReset :: "string option \<Rightarrow> resetReply option call"

text \<open>
  The filter of step 2: the body of \<open>sessions.filter\<close>. Token counts and the
  threshold are integers; a missing or zero token count and a missing or empty key are
  falsy.
\<close>

definition isCandidate :: "int \<Rightarrow> session \<Rightarrow> bool" where
  "isCandidate THRESHOLD s =
     (case totalTokens s of
        None \<Rightarrow> False
      | Some t \<Rightarrow>
          if t = 0 \<or> t < THRESHOLD then False
          else (case key s of
                  None \<Rightarrow> False
                | Some k \<Rightarrow>
                    if k = [] then False
                    else \<not> matchesSkipPattern k))"

text \<open>
  The state of the rotate loop: the keys of the \<open>sessions.reset\<close> commands sent so
  far, in order, and the counter \<open>rotated\<close>.
\<close>

record rotation =
  issued :: "string option list"
  rotated :: nat

definition resetSucceeded :: "resetReply option \<Rightarrow> bool" where
  "resetSucceeded result =
     (case result of None \<Rightarrow> False | Some r \<Rightarrow> ok r \<or> resetEntry r \<noteq> None)"

fun rotateEach :: "gateway \<Rightarrow> bool \<Rightarrow> session list \<Rightarrow> rotation \<Rightarrow> rotation" where
  "rotateEach gw DRY_RUN [] st = st"
| "rotateEach gw DRY_RUN (s # rest) st =
     (if DRY_RUN then rotateEach gw DRY_RUN rest (st\<lparr>rotated := rotated st + 1\<rparr>)
      else
        (case sessionsReset gw (key s) of
           Returns result \<Rightarrow>
             if resetSucceeded result
             then rotateEach gw DRY_RUN rest
                    \<lparr>issued = issued st @ [key s], rotated = rotated st + 1\<rparr>
             else rotateEach gw DRY_RUN rest (st\<lparr>issued := issued st @ [key s]\<rparr>)
         | Throws err \<Rightarrow>
             rotateEach gw DRY_RUN rest (st\<lparr>issued := issued st @ [key s]\<rparr>)))"

datatype finish = Exit nat | Completed nat nat

text \<open>
  \<open>main\<close> of the monitor: the commands sent and how the run ended
  (\<open>Completed rotated candidates\<close> is the final tally line).
\<close>

definition rotationMain :: "gateway \<Rightarrow> bool \<Rightarrow> int \<Rightarrow> string option list \<times> finish" where
  "rotationMain gw DRY_RUN THRESHOLD =
     (case sessionsList gw of
        Throws err \<Rightarrow> ([], Exit 1)
      | Returns result \<Rightarrow>
          (let sessions = (case result of None \<Rightarrow> [] | Some ss \<Rightarrow> ss);
               candidates = filter (isCandidate THRESHOLD) sessions
           in if candidates = [] then ([], Exit 0)
              else (let st = rotateEach gw DRY_RUN candidates \<lparr>issued = [], rotated = 0\<rparr>
                    in (issued st, Completed (rotated st) (length candidates)))))"

subsection \<open>Concrete registries\<close>

text \<open>
  Scenario C of the specification: one session at 160,000 tokens, no exclusion match;
  the same session at exactly 150,000 tokens; and a cron session far above the threshold.
  The gateway accepts every reset.
\<close>

definition acceptReset :: "string option \<Rightarrow> resetReply option call" where
  "acceptReset k = Returns (Some \<lparr>ok = True, resetEntry = Some (Some ''0123456789abcdef'')\<rparr>)"

definition registryOf :: "session list \<Rightarrow> gateway" where
  "registryOf ss = \<lparr>sessionsList = Returns (Some ss), sessionsReset = acceptReset\<rparr>"

definition sessionC :: session where
  "sessionC = \<lparr>key = Some ''agent:main:slack:dm:u1'', sessionId = Some ''aaaabbbbcccc'',
               totalTokens = Some 160000\<rparr>"

definition sessionAtThreshold :: session where
  "sessionAtThreshold = \<lparr>key = Some ''agent:main:slack:dm:u1'', sessionId = Some ''aaaabbbbcccc'',
                          totalTokens = Some 150000\<rparr>"

definition sessionCron :: session where
  "sessionCron = \<lparr>key = Some ''agent:main:cron:nightly'', sessionId = Some ''ddddeeeeffff'',
                   totalTokens = Some 900000\<rparr>"

section \<open>Files\<close>

text \<open>
  Directories are named by strings, built with \<open>path.join\<close>. A file path is a
  directory together with an entry name (\<open>path.join(dir, name)\<close> for a name that is a
  plain directory entry).
\<close>

type_synonym path = "string \<times> string"

definition dirJoin :: "string \<Rightarrow> string \<Rightarrow> string" where
  "dirJoin d n = pathJoin [d, n]"

record fileNode =
  fileContent :: string
  fileSize :: nat
  fileMtimeMs :: int

datatype logLine =
    FailedMkdir string string
  | WouldWrite string nat
  | WouldAppend string string nat
  | FailedWriteActiveContext string
  | FailedAppendDaily string
  | AgentError "string option" string
  | FailedLoadConfig
  | NoAgentsFound
  | DoneCheckpointed nat nat
  | NoIndexFound
  | BelowThreshold nat
  | FailedReadIndex
  | Injected nat string

text \<open>
  The world a run acts on: the files, the directories created, and the lines printed by
  \<open>log\<close>, \<open>console.log\<close> and \<open>console.error\<close> (the \<open>verbose\<close> lines are left out).
\<close>

record world =
  files :: "(path \<times> fileNode) list"
  dirs :: "string list"
  logged :: "logLine list"

definition stat :: "world \<Rightarrow> path \<Rightarrow> fileNode option" where
  "stat w p = map_of (files w) p"

text \<open>A read fails exactly when the file is absent.\<close>

definition readFile :: "world \<Rightarrow> path \<Rightarrow> string option" where
  "readFile w p = map_option fileContent (map_of (files w) p)"

definition access :: "world \<Rightarrow> path \<Rightarrow> bool" where
  "access w p = (map_of (files w) p \<noteq> None)"

definition dirExists :: "world \<Rightarrow> string \<Rightarrow> bool" where
  "dirExists w d = (d \<in> set (dirs w) \<or> d \<in> set (map (fst \<circ> fst) (files w)))"

definition readdir :: "world \<Rightarrow> string \<Rightarrow> string list option" where
  "readdir w d =
     (if dirExists w d
      then Some (remdups (map (snd \<circ> fst) (filter (\<lambda>e. fst (fst e) = d) (files w))))
      else None)"

definition say :: "logLine \<Rightarrow> world \<Rightarrow> world" where
  "say l w = w\<lparr>logged := logged w @ [l]\<rparr>"

section \<open>Checkpoint pipeline (memory-checkpoint.js)\<close>

subsection \<open>Environment of a run\<close>

text \<open>
  What a run takes from its process and host library: directories, flags, the clock as
  the source reads it (\<open>nowMs\<close> in \<open>findActiveSession\<close>, \<open>isoNow\<close> in
  \<open>buildActiveContext\<close>, \<open>entryTime\<close> in \<open>buildDailyEntry\<close>, and date and \<open>runTime\<close>
  in \<open>checkpointAgent\<close>; the two times are what \<open>toLocaleTimeString\<close> returns),
  \<open>JSON.parse\<close> of a transcript line seen through the fields the code reads (\<open>None\<close>
  when it throws), the time formatting of a message timestamp, the matches of the
  file-path pattern, and which writes and directory creations fail.
\<close>

record rawPart =
  partType :: "string option"
  partText :: "string option"

datatype rawContent = Str string | Arr "rawPart list" | OtherContent

record rawMessage =
  msgRole :: "string option"
  msgContent :: rawContent
  msgModel :: "string option"

record rawEntry =
  entryType :: "string option"
  entryMessage :: "rawMessage option"
  entryTimestamp :: "string option"

record env =
  CLAWDBOT_HOME :: string
  homedir :: string
  STALENESS_THRESHOLD_MS :: int
  DRY_RUN :: bool
  nowMs :: int
  isoNow :: string
  entryTime :: string
  runTime :: string
  fullYear :: nat
  month :: nat
  date :: nat
  jsonParse :: "string \<Rightarrow> rawEntry option"
  formatTime :: "string \<Rightarrow> string"
  matchFileRefs :: "string \<Rightarrow> string list"
  writeFails :: "path \<Rightarrow> bool"
  mkdirFails :: "string \<Rightarrow> bool"

definition MAX_LINES :: nat where
  "MAX_LINES = 60"

definition MIN_SESSION_BYTES :: nat where
  "MIN_SESSION_BYTES = 1024"

definition writeFile :: "env \<Rightarrow> world \<Rightarrow> path \<Rightarrow> string \<Rightarrow> world option" where
  "writeFile e w p d =
     (if writeFails e p then None
      else Some (w\<lparr>files :=
             AList.update p \<lparr>fileContent = d, fileSize = length d, fileMtimeMs = nowMs e\<rparr>
               (files w)\<rparr>))"

definition mkdir :: "env \<Rightarrow> world \<Rightarrow> string \<Rightarrow> world option" where
  "mkdir e w d =
     (if mkdirFails e d then None else Some (w\<lparr>dirs := List.insert d (dirs w)\<rparr>))"

subsection \<open>Configuration and workspace resolution\<close>

record agentEntry =
  agId :: "string option"
  agName :: "string option"
  agWorkspace :: "string option"

text \<open>
  The configuration document through the fields read: \<open>cfg?.agents?.list || []\<close> and
  \<open>cfg?.agents?.defaults?.workspace\<close>.
\<close>

record config =
  agentsList :: "agentEntry list"
  defaultsWorkspace :: "string option"

text \<open>
  The replacement text of \<open>replace\<close>: in it \<open>$$\<close> stands for a dollar sign, \<open>$&\<close> for
  the match, \<open>$`\<close> for the text before the match (empty here) and \<open>$'\<close> for the text
  after it; the pattern has no groups, so every other dollar sign stands for itself.
\<close>

fun expandReplacement :: "string \<Rightarrow> string \<Rightarrow> string \<Rightarrow> string" where
  "expandReplacement matched after [] = []"
| "expandReplacement matched after [c] = [c]"
| "expandReplacement matched after (c # d # cs) =
     (if c = CHR ''$'' \<and> d = CHR ''$'' then CHR ''$'' # expandReplacement matched after cs
      else if c = CHR ''$'' \<and> d = CHR ''&'' then matched @ expandReplacement matched after cs
      else if c = CHR ''$'' \<and> d = CHR 0x60 then expandReplacement matched after cs
      else if c = CHR ''$'' \<and> d = CHR 0x27 then after @ expandReplacement matched after cs
      else c # expandReplacement matched after (d # cs))"

text \<open>\<open>s.replace(/^~/, home)\<close>.\<close>

fun replaceTilde :: "string \<Rightarrow> string \<Rightarrow> string" where
  "replaceTilde home [] = []"
| "replaceTilde home (c # cs) =
     (if c = CHR ''~'' then expandReplacement ''~'' cs home @ cs else c # cs)"

text \<open>\<open>a.id === i || a.name?.toLowerCase() === i\<close>.\<close>

definition entryMatches :: "(string \<Rightarrow> string) \<Rightarrow> string \<Rightarrow> agentEntry \<Rightarrow> bool" where
  "entryMatches toLowerCase i a = (agId a = Some i \<or> map_option toLowerCase (agName a) = Some i)"

definition resolveWorkspace :: "(string \<Rightarrow> string) \<Rightarrow> string \<Rightarrow> config \<Rightarrow> string \<Rightarrow> string" where
  "resolveWorkspace toLowerCase home cfg agentId =
     (let agentConfig = find (entryMatches toLowerCase agentId) (agentsList cfg) in
      case (case agentConfig of None \<Rightarrow> None | Some a \<Rightarrow>
              if truthy (agWorkspace a) then agWorkspace a else None) of
        Some ws \<Rightarrow> replaceTilde home ws
      | None \<Rightarrow>
          (case (if agentId = ''main'' \<and> truthy (defaultsWorkspace cfg)
                 then defaultsWorkspace cfg else None) of
             Some defaults \<Rightarrow> replaceTilde home defaults
           | None \<Rightarrow>
               dirJoin home (if agentId = ''main'' then ''clawd'' else ''clawd-'' @ agentId)))"

subsection \<open>Finding the active session\<close>

record sessionFile =
  sessionPath :: path
  sessionMtimeMs :: int
  sessionSize :: nat

text \<open>The loop that keeps the most recently modified file; \<open>newestMtime\<close> starts at 0.\<close>

fun newestOf :: "world \<Rightarrow> string \<Rightarrow> string list \<Rightarrow> sessionFile option \<times> int
    \<Rightarrow> sessionFile option \<times> int" where
  "newestOf w sessionsDir [] acc = acc"
| "newestOf w sessionsDir (f # fs) (newest, newestMtime) =
     (case stat w (sessionsDir, f) of
        None \<Rightarrow> newestOf w sessionsDir fs (newest, newestMtime)
      | Some st \<Rightarrow>
          if fileMtimeMs st > newestMtime
          then newestOf w sessionsDir fs
                 (Some \<lparr>sessionPath = (sessionsDir, f), sessionMtimeMs = fileMtimeMs st,
                        sessionSize = fileSize st\<rparr>, fileMtimeMs st)
          else newestOf w sessionsDir fs (newest, newestMtime))"

definition findActiveSession :: "env \<Rightarrow> world \<Rightarrow> string \<Rightarrow> sessionFile option" where
  "findActiveSession e w agentId =
     (let sessionsDir = pathJoin [CLAWDBOT_HOME e, ''agents'', agentId, ''sessions'']
      in case readdir w sessionsDir of
           None \<Rightarrow> None
         | Some entries \<Rightarrow>
             (let jsonlFiles = filter (\<lambda>f. endsWith f ''.jsonl'' \<and> \<not> includesStr f ''.deleted''
                                           \<and> \<not> includesStr f ''.lock'') entries
              in if jsonlFiles = [] then None
                 else (case fst (newestOf w sessionsDir jsonlFiles (None, 0)) of
                         None \<Rightarrow> None
                       | Some newest \<Rightarrow>
                           if nowMs e - sessionMtimeMs newest > STALENESS_THRESHOLD_MS e then None
                           else if sessionSize newest < MIN_SESSION_BYTES then None
                           else Some newest)))"

definition readLastLines :: "world \<Rightarrow> path \<Rightarrow> nat \<Rightarrow> string list option" where
  "readLastLines w filePath maxLines =
     map_option (\<lambda>content. sliceLast maxLines (splitOn CHR 0x0A (trim content)))
       (readFile w filePath)"

subsection \<open>Extracting messages\<close>

record messageRecord =
  role :: string
  msgText :: string
  timestamp :: "string option"
  model :: "string option"

text \<open>\<open>v || null\<close>.\<close>

definition orNull :: "string option \<Rightarrow> string option" where
  "orNull v = (if truthy v then v else None)"

definition textOf :: "rawContent \<Rightarrow> string" where
  "textOf c =
     (case c of
        Str s \<Rightarrow> s
      | Arr parts \<Rightarrow>
          joinWith nl
            (map (\<lambda>c. case partText c of Some t \<Rightarrow> t | None \<Rightarrow> [])
               (filter (\<lambda>c. partType c = Some ''text'' \<and> truthy (partText c)) parts))
      | OtherContent \<Rightarrow> [])"

text \<open>One turn of the loop of \<open>extractMessages\<close>: the record pushed, if any.\<close>

definition extractLine :: "env \<Rightarrow> string \<Rightarrow> messageRecord option" where
  "extractLine e line =
     (case jsonParse e line of
        None \<Rightarrow> None
      | Some entry \<Rightarrow>
          if entryType entry \<noteq> Some ''message'' then None
          else (case entryMessage entry of
                  None \<Rightarrow> None
                | Some msg \<Rightarrow>
                    if msgRole msg \<noteq> Some ''user'' \<and> msgRole msg \<noteq> Some ''assistant'' then None
                    else (let text = textOf (msgContent msg) in
                          if text = [] \<or> utf16Length text < 5 then None
                          else if text = ''HEARTBEAT_OK'' \<or> text = ''NO_REPLY'' then None
                          else if startsWith text ''/'' then None
                          else Some \<lparr>role = (case msgRole msg of Some r \<Rightarrow> r | None \<Rightarrow> []),
                                      msgText = sliceTo 1000 text,
                                      timestamp = orNull (entryTimestamp entry),
                                      model = orNull (msgModel msg)\<rparr>)))"

definition extractMessages :: "env \<Rightarrow> string list \<Rightarrow> messageRecord list" where
  "extractMessages e lines = List.map_filter (extractLine e) lines"

subsection \<open>Rendering the snapshot and the day-log entry\<close>

definition emDash :: string where
  "emDash = [CHR 0xE2, CHR 0x80, CHR 0x94]"

text \<open>\<open>path.basename(p, ext)\<close> on the entry name of a path.\<close>

definition basenameExt :: "string \<Rightarrow> string \<Rightarrow> string" where
  "basenameExt name ext =
     (if endsWith name ext \<and> name \<noteq> ext then take (length name - length ext) name else name)"

definition timeOf :: "env \<Rightarrow> messageRecord \<Rightarrow> string" where
  "timeOf e msg = (case timestamp msg of Some t \<Rightarrow> formatTime e t | None \<Rightarrow> ''??:??'')"

text \<open>Insertion into a \<open>Set\<close>, which keeps the order of first insertion.\<close>

definition setAdd :: "string list \<Rightarrow> string \<Rightarrow> string list" where
  "setAdd s r = (if r \<in> set s then s else s @ [r])"

definition fileRefsOf :: "env \<Rightarrow> messageRecord list \<Rightarrow> string list" where
  "fileRefsOf e messages =
     (let allText = joinWith nl (map msgText messages) in
      foldl setAdd []
        (filter (\<lambda>ref. utf16Length ref > 5 \<and> \<not> startsWith ref ''http''
                        \<and> \<not> includesStr ref ''node_modules'')
           (matchFileRefs e allText)))"

definition buildActiveContext :: "env \<Rightarrow> string \<Rightarrow> messageRecord list \<Rightarrow> path \<Rightarrow> string" where
  "buildActiveContext e agentId messages sessPath =
     (let sessId = basenameExt (snd sessPath) ''.jsonl'';
          recentAssistant = sliceLast 5 (filter (\<lambda>m. role m = ''assistant'') messages);
          recentUser = sliceLast 5 (filter (\<lambda>m. role m = ''user'') messages);
          fileRefs = fileRefsOf e messages;
          sections =
            [''# Active Context '' @ emDash @ '' '' @ agentId,
             ''> Auto-generated by memory-checkpoint at '' @ isoNow e,
             ''> Session: '' @ sessId,
             ''> Messages captured: '' @ showNat (length messages),
             '''']
            @ (if recentUser \<noteq> []
               then [''## Recent Requests'']
                    @ map (\<lambda>msg. ''- **['' @ timeOf e msg @ '']** '' @ sliceTo 300 (msgText msg))
                        recentUser
                    @ ['''']
               else [])
            @ (if recentAssistant \<noteq> []
               then [''## Recent Work'']
                    @ map (\<lambda>msg. ''- **['' @ timeOf e msg @ '']** '' @ sliceTo 400 (msgText msg))
                        recentAssistant
                    @ ['''']
               else [])
            @ (if fileRefs \<noteq> []
               then [''## Files Referenced'']
                    @ map (\<lambda>ref. ''- `'' @ ref @ ''`'') (take 20 fileRefs)
                    @ ['''']
               else [])
      in joinWith nl sections)"

definition buildDailyEntry :: "env \<Rightarrow> string \<Rightarrow> messageRecord list \<Rightarrow> string" where
  "buildDailyEntry e agentId messages =
     (let timeStr = entryTime e;
          userMsgs = filter (\<lambda>m. role m = ''user'') messages;
          assistantMsgs = filter (\<lambda>m. role m = ''assistant'') messages;
          lines =
            [''### Checkpoint '' @ timeStr @ '' (auto)'',
             '''',
             ''- '' @ showNat (length messages) @ '' messages ('' @ showNat (length userMsgs)
               @ '' user, '' @ showNat (length assistantMsgs) @ '' assistant)'']
            @ (if userMsgs \<noteq> []
               then [''- Last request: '' @ sliceTo 200 (msgText (last userMsgs))] else [])
            @ (if assistantMsgs \<noteq> []
               then [''- Last output: '' @ sliceTo 200 (msgText (last assistantMsgs))] else [])
            @ ['''']
      in joinWith nl lines)"

subsection \<open>Checkpointing one agent\<close>

definition dateStrOf :: "env \<Rightarrow> string" where
  "dateStrOf e =
     showNat (fullYear e) @ ''-'' @ padStart2 (showNat (month e + 1)) @ ''-''
       @ padStart2 (showNat (date e))"

text \<open>The write of the snapshot, with its own \<open>catch\<close>.\<close>

definition writeActiveContext :: "env \<Rightarrow> string \<Rightarrow> path \<Rightarrow> string \<Rightarrow> world \<Rightarrow> world" where
  "writeActiveContext e agentId activeContextFile activeContext w =
     (case writeFile e w activeContextFile activeContext of
        Some w' \<Rightarrow> w'
      | None \<Rightarrow> say (FailedWriteActiveContext agentId) w)"

text \<open>
  The append to the day log, with its test for a recent checkpoint and its \<open>catch\<close>.
  The time string of the \<open>en-US\<close> locale is ASCII, so its first four code units are its
  first four bytes.
\<close>

definition appendDaily :: "env \<Rightarrow> string \<Rightarrow> string \<Rightarrow> path \<Rightarrow> string \<Rightarrow> world \<Rightarrow> world" where
  "appendDaily e agentId dateStr dailyFile dailyEntry w =
     (let existing = (case readFile w dailyFile of
                        Some text \<Rightarrow> text
                      | None \<Rightarrow> ''# '' @ agentId @ '' '' @ emDash @ '' '' @ dateStr @ nl @ nl);
          recentCheckpoint = includesStr existing (''Checkpoint '' @ take 4 (runTime e))
      in if \<not> recentCheckpoint
         then (case writeFile e w dailyFile (existing @ dailyEntry) of
                 Some w' \<Rightarrow> w'
               | None \<Rightarrow> say (FailedAppendDaily agentId) w)
         else w)"

definition memoryDirOf :: "(string \<Rightarrow> string) \<Rightarrow> env \<Rightarrow> config \<Rightarrow> string \<Rightarrow> string" where
  "memoryDirOf toLowerCase e cfg agentId =
     dirJoin (resolveWorkspace toLowerCase (homedir e) cfg agentId) ''memory''"

definition dailyFileOf :: "(string \<Rightarrow> string) \<Rightarrow> env \<Rightarrow> config \<Rightarrow> string \<Rightarrow> path" where
  "dailyFileOf toLowerCase e cfg agentId =
     (memoryDirOf toLowerCase e cfg agentId, dateStrOf e @ ''.md'')"

definition activeContextFileOf :: "(string \<Rightarrow> string) \<Rightarrow> env \<Rightarrow> config \<Rightarrow> string \<Rightarrow> path" where
  "activeContextFileOf toLowerCase e cfg agentId =
     (memoryDirOf toLowerCase e cfg agentId, ''ACTIVE_CONTEXT.md'')"

text \<open>
  \<open>checkpointAgent\<close>: \<open>Inr b\<close> is the value returned, \<open>Inl\<close> an exception that leaves
  the function. An agent without an identifier makes \<open>path.join\<close> throw. The first
  argument is the \<open>toLowerCase\<close> of the host.
\<close>

definition checkpointAgent :: "(string \<Rightarrow> string) \<Rightarrow> env \<Rightarrow> config \<Rightarrow> string option \<Rightarrow> world
    \<Rightarrow> (string + bool) \<times> world" where
  "checkpointAgent toLowerCase e cfg agentId w =
     (case agentId of
        None \<Rightarrow> (Inl ''ERR_INVALID_ARG_TYPE'', w)
      | Some a \<Rightarrow>
          (case findActiveSession e w a of
             None \<Rightarrow> (Inr False, w)
           | Some sess \<Rightarrow>
               (case readLastLines w (sessionPath sess) MAX_LINES of
                  None \<Rightarrow> (Inl ''ENOENT'', w)
                | Some lines \<Rightarrow>
                    (let messages = extractMessages e lines in
                     if length messages < 3 then (Inr False, w)
                     else (let memoryDir = memoryDirOf toLowerCase e cfg a in
                           case mkdir e w memoryDir of
                             None \<Rightarrow> (Inr False, say (FailedMkdir a memoryDir) w)
                           | Some w1 \<Rightarrow>
                               (let activeContext = buildActiveContext e a messages (sessionPath sess);
                                    dailyEntry = buildDailyEntry e a messages;
                                    dateStr = dateStrOf e;
                                    dailyFile = dailyFileOf toLowerCase e cfg a;
                                    activeContextFile = activeContextFileOf toLowerCase e cfg a
                                in if DRY_RUN e
                                   then (Inr True,
                                         say (WouldAppend a dateStr (utf16Length dailyEntry))
                                           (say (WouldWrite a (utf16Length activeContext)) w1))
                                   else (Inr True,
                                         appendDaily e a dateStr dailyFile dailyEntry
                                           (writeActiveContext e a activeContextFile
                                              activeContext w1))))))))"

subsection \<open>The batch over all agents\<close>

text \<open>The loop of \<open>main\<close>: the world and the counter \<open>checkpointed\<close>.\<close>

fun checkpointEach :: "(string \<Rightarrow> string) \<Rightarrow> env \<Rightarrow> config \<Rightarrow> string option list
    \<Rightarrow> world \<times> nat \<Rightarrow> world \<times> nat" where
  "checkpointEach toLowerCase e cfg [] acc = acc"
| "checkpointEach toLowerCase e cfg (agentId # rest) (w, checkpointed) =
     (case checkpointAgent toLowerCase e cfg agentId w of
        (Inr didCheckpoint, w') \<Rightarrow>
          checkpointEach toLowerCase e cfg rest
            (w', if didCheckpoint then checkpointed + 1 else checkpointed)
      | (Inl err, w') \<Rightarrow>
          checkpointEach toLowerCase e cfg rest (say (AgentError agentId err) w', checkpointed))"

text \<open>
  \<open>main\<close>: \<open>loadConfig\<close> gives the configuration or throws (\<open>None\<close>). The result is the
  exit code, the final counter and the world left behind.
\<close>

definition checkpointMain :: "(string \<Rightarrow> string) \<Rightarrow> env \<Rightarrow> config option \<Rightarrow> world
    \<Rightarrow> nat \<times> nat \<times> world" where
  "checkpointMain toLowerCase e loaded w =
     (case loaded of
        None \<Rightarrow> (1, 0, say FailedLoadConfig w)
      | Some cfg \<Rightarrow>
          (let agents = map agId (agentsList cfg) in
           if agents = [] then (0, 0, say NoAgentsFound w)
           else (case checkpointEach toLowerCase e cfg agents (w, 0) of
                   (w', checkpointed) \<Rightarrow>
                     (0, checkpointed, say (DoneCheckpointed checkpointed (length agents)) w'))))"

subsection \<open>Concrete runs\<close>

text \<open>
  A home with one agent, \<open>main\<close>, and one transcript modified ten minutes before the run.
  The transcript lines stand for their JSON text; \<open>parseLine\<close> is their parse. Three of
  them are usable messages, \<open>hb\<close> is a heartbeat, \<open>sh\<close> is a message of four characters
  and five bytes (its second letter is U+00E9), any other line is malformed.
\<close>

definition sessionsDirMain :: string where
  "sessionsDirMain = ''/home/u/.clawdbot/agents/main/sessions''"

definition textEntry :: "string \<Rightarrow> rawContent \<Rightarrow> rawEntry" where
  "textEntry r c =
     \<lparr>entryType = Some ''message'',
      entryMessage = Some \<lparr>msgRole = Some r, msgContent = c, msgModel = None\<rparr>,
      entryTimestamp = Some ''2026-02-03T14:30:00.000Z''\<rparr>"

definition parseLine :: "string \<Rightarrow> rawEntry option" where
  "parseLine line =
     (if line = ''u1'' then Some (textEntry ''user'' (Str ''please fix the login bug''))
      else if line = ''a1'' then
        Some (textEntry ''assistant''
                (Arr [\<lparr>partType = Some ''thinking'', partText = None\<rparr>,
                      \<lparr>partType = Some ''text'', partText = Some ''I patched src/auth/login.js now''\<rparr>]))
      else if line = ''u2'' then Some (textEntry ''user'' (Str ''now run the tests''))
      else if line = ''hb'' then Some (textEntry ''assistant'' (Str ''HEARTBEAT_OK''))
      else if line = ''sh'' then Some (textEntry ''user'' (Str (''h'' @ [CHR 0xC3, CHR 0xA9] @ ''ll'')))
      else None)"

definition runEnv :: "bool \<Rightarrow> (path \<Rightarrow> bool) \<Rightarrow> env" where
  "runEnv dry failing =
     \<lparr>CLAWDBOT_HOME = ''/home/u/.clawdbot'', homedir = ''/home/u'',
      STALENESS_THRESHOLD_MS = 14400000, DRY_RUN = dry, nowMs = 1000600000,
      isoNow = ''2026-02-03T14:35:10.000Z'', entryTime = ''14:35'', runTime = ''14:35'',
      fullYear = 2026, month = 1, date = 3,
      jsonParse = parseLine,
      formatTime = (\<lambda>ts. take 5 (drop 11 ts)),
      matchFileRefs = (\<lambda>allText. if includesStr allText ''src/auth/login.js''
                                  then [''src/auth/login.js''] else []),
      writeFails = failing, mkdirFails = (\<lambda>d. False)\<rparr>"

definition transcriptWorld :: "string \<Rightarrow> world" where
  "transcriptWorld transcript =
     \<lparr>files = [((sessionsDirMain, ''s1.jsonl''),
                 \<lparr>fileContent = transcript, fileSize = 2048, fileMtimeMs = 1000000000\<rparr>)],
      dirs = [], logged = []\<rparr>"

text \<open>Scenario A: two usable messages. And a transcript with three.\<close>

definition transcriptTwo :: string where
  "transcriptTwo = ''u1'' @ nl @ ''a1'' @ nl @ ''hb'' @ nl @ ''sh'' @ nl @ ''{broken'' @ nl"

definition transcriptThree :: string where
  "transcriptThree = ''u1'' @ nl @ ''a1'' @ nl @ ''hb'' @ nl @ ''u2'' @ nl"

definition cfgMain :: config where
  "cfgMain = \<lparr>agentsList = [\<lparr>agId = Some ''main'', agName = Some ''Main'', agWorkspace = None\<rparr>],
              defaultsWorkspace = None\<rparr>"

definition dailyMain :: path where
  "dailyMain = (''/home/u/clawd/memory'', ''2026-02-03.md'')"

definition plainRun :: env where
  "plainRun = runEnv False (\<lambda>p. False)"

definition sessionMain :: sessionFile where
  "sessionMain = \<lparr>sessionPath = (sessionsDirMain, ''s1.jsonl''), sessionMtimeMs = 1000000000,
                  sessionSize = 2048\<rparr>"

text \<open>Two runs in the same minute, one after the other.\<close>

definition afterFirstRun :: world where
  "afterFirstRun = snd (checkpointAgent asciiToLowerCase plainRun cfgMain (Some ''main'')
                           (transcriptWorld transcriptThree))"

definition afterSecondRun :: world where
  "afterSecondRun = snd (checkpointAgent asciiToLowerCase plainRun cfgMain (Some ''main'') afterFirstRun)"

text \<open>A run in which every write below the memory directory of \<open>main\<close> fails.\<close>

definition readOnlyMemory :: env where
  "readOnlyMemory = runEnv False (\<lambda>p. fst p = ''/home/u/clawd/memory'')"

text \<open>A run in which the memory directory cannot be created, and a list with a nameless agent.\<close>

definition mkdirDenied :: env where
  "mkdirDenied = plainRun\<lparr>mkdirFails := (\<lambda>d. True)\<rparr>"

definition cfgNameless :: config where
  "cfgNameless = \<lparr>agentsList = [\<lparr>agId = None, agName = Some ''Ghost'', agWorkspace = None\<rparr>,
                                  \<lparr>agId = Some ''main'', agName = Some ''Main'', agWorkspace = None\<rparr>],
                  defaultsWorkspace = None\<rparr>"

section \<open>Disclosure planner and workspace resolution of the hooks\<close>

subsection \<open>Workspace resolution (session-summary hook)\<close>

text \<open>
  The agent identifier of a session key such as \<open>agent:desmond:slack:dm:...\<close>; a missing
  or empty key gives \<open>main\<close>.
\<close>

definition resolveAgentIdFromSessionKey :: "(string \<Rightarrow> string) \<Rightarrow> string option \<Rightarrow> string" where
  "resolveAgentIdFromSessionKey toLowerCase sessionKey =
     (case sessionKey of
        None \<Rightarrow> ''main''
      | Some k \<Rightarrow>
          if k = [] then ''main''
          else (case splitOn CHR '':'' k of
                  p0 # p1 # rest \<Rightarrow>
                    if p0 = ''agent'' \<and> p1 \<noteq> [] then toLowerCase p1 else ''main''
                | _ \<Rightarrow> ''main''))"

text \<open>\<open>(agentId || "main").trim().toLowerCase()\<close>.\<close>

definition normalizedId :: "(string \<Rightarrow> string) \<Rightarrow> string option \<Rightarrow> string" where
  "normalizedId toLowerCase agentId =
     toLowerCase (trim (case agentId of None \<Rightarrow> ''main''
                        | Some s \<Rightarrow> if s = [] then ''main'' else s))"

definition resolveAgentWorkspaceDir :: "(string \<Rightarrow> string) \<Rightarrow> string \<Rightarrow> config \<Rightarrow> string option \<Rightarrow> string" where
  "resolveAgentWorkspaceDir toLowerCase home cfg agentId =
     (let i = normalizedId toLowerCase agentId;
          agentConfig = find (entryMatches toLowerCase i) (agentsList cfg)
      in case (case agentConfig of None \<Rightarrow> None | Some a \<Rightarrow>
                 if truthy (agWorkspace a) then agWorkspace a else None) of
           Some ws \<Rightarrow> replaceTilde home ws
         | None \<Rightarrow>
             if i = ''main''
             then (if truthy (defaultsWorkspace cfg)
                   then (case defaultsWorkspace cfg of Some fallback \<Rightarrow> replaceTilde home fallback
                         | None \<Rightarrow> dirJoin home ''clawd'')
                   else dirJoin home ''clawd'')
             else dirJoin home (''clawd-'' @ i))"

text \<open>
  The workspace the session-summary handler works in: the one resolved for the agent of
  the session key of the event, or \<open>home/clawd\<close> when the event carries no configuration.
\<close>

definition summaryWorkspaceDir :: "(string \<Rightarrow> string) \<Rightarrow> string \<Rightarrow> config option \<Rightarrow> string option \<Rightarrow> string" where
  "summaryWorkspaceDir toLowerCase home cfg sessionKey =
     (let agentId = resolveAgentIdFromSessionKey toLowerCase sessionKey
      in case cfg of
           Some c \<Rightarrow> resolveAgentWorkspaceDir toLowerCase home c (Some agentId)
         | None \<Rightarrow> dirJoin home ''clawd'')"

subsection \<open>Index injection at bootstrap (memory-index-inject hook)\<close>

definition MEMORY_THRESHOLD_BYTES :: nat where
  "MEMORY_THRESHOLD_BYTES = 50 * 1024"

record bootstrapFile =
  name :: string
  content :: string

record hookContext =
  workspaceDir :: "string option"
  bootstrapFiles :: "bootstrapFile list option"

record event =
  evType :: string
  evAction :: string
  evContext :: "hookContext option"

text \<open>\<open>Math.round(n / d)\<close> for natural numbers: halves round up.\<close>

definition roundDiv :: "nat \<Rightarrow> nat \<Rightarrow> nat" where
  "roundDiv n d = (2 * n + d) div (2 * d)"

definition instruction :: "nat \<Rightarrow> string" where
  "instruction totalMemoryBytes =
     (''## Progressive Memory Disclosure''
      @ [CHR 0x0A, CHR 0x0A]
      @ ''Your memory pool contains ''
      @ showNat (roundDiv totalMemoryBytes 1024)
      @ ''KB (~''
      @ showNat (roundDiv totalMemoryBytes 4)
      @ '' tokens) across multiple files.''
      @ [CHR 0x0A]
      @ ''To avoid wasting context on irrelevant memory, you''
      @ [CHR 0x27]
      @ ''ve been given a compact INDEX instead of the full contents.''
      @ [CHR 0x0A, CHR 0x0A]
      @ ''**How to use:**''
      @ [CHR 0x0A]
      @ ''1. ACTIVE_CONTEXT.md is loaded below ''
      @ [CHR 0xE2, CHR 0x80, CHR 0x94]
      @ '' it contains your current working state''
      @ [CHR 0x0A]
      @ ''2. The INDEX shows all available memory files with categories, s''
      @ ''izes, and observation markers''
      @ [CHR 0x0A]
      @ ''3. Use `memory_search` to find relevant files by topic''
      @ [CHR 0x0A]
      @ ''4. Use `memory_get` to load specific sections of specific files''
      @ [CHR 0x0A]
      @ ''5. **Don''
      @ [CHR 0x27]
      @ ''t load everything** ''
      @ [CHR 0xE2, CHR 0x80, CHR 0x94]
      @ '' only pull what''
      @ [CHR 0x27]
      @ ''s relevant to the current task''
      @ [CHR 0x0A, CHR 0x0A]
      @ ''**Observation markers in memory files:**''
      @ [CHR 0x0A]
      @ ''- ''
      @ [CHR 0xF0, CHR 0x9F, CHR 0x94, CHR 0xB4]
      @ '' [GOTCHA] ''
      @ [CHR 0xE2, CHR 0x80, CHR 0x94]
      @ '' Traps, footguns, unexpected behavior''
      @ [CHR 0x0A]
      @ ''- ''
      @ [CHR 0xF0, CHR 0x9F, CHR 0x9F, CHR 0xA4]
      @ '' [DECISION] ''
      @ [CHR 0xE2, CHR 0x80, CHR 0x94]
      @ '' Architectural/strategic choices''
      @ [CHR 0x0A]
      @ ''- ''
      @ [CHR 0xE2, CHR 0x9A, CHR 0x96, CHR 0xEF, CHR 0xB8, CHR 0x8F]
      @ '' [TRADEOFF] ''
      @ [CHR 0xE2, CHR 0x80, CHR 0x94]
      @ '' Evaluated options with pros/cons''
      @ [CHR 0x0A]
      @ ''- ''
      @ [CHR 0xF0, CHR 0x9F, CHR 0x9F, CHR 0xA1]
      @ '' [SOLUTION] ''
      @ [CHR 0xE2, CHR 0x80, CHR 0x94]
      @ '' Problem + how it was solved''
      @ [CHR 0x0A]
      @ ''- ''
      @ [CHR 0xF0, CHR 0x9F, CHR 0x94, CHR 0xB5]
      @ '' [PATTERN] ''
      @ [CHR 0xE2, CHR 0x80, CHR 0x94]
      @ '' Reusable approach or workflow''
      @ [CHR 0x0A]
      @ ''- ''
      @ [CHR 0xF0, CHR 0x9F, CHR 0x9F, CHR 0xA2]
      @ '' [FACT] ''
      @ [CHR 0xE2, CHR 0x80, CHR 0x94]
      @ '' Verified reference data''
      @ [CHR 0x0A]
      @ ''- ''
      @ [CHR 0xF0, CHR 0x9F, CHR 0x9F, CHR 0xA3]
      @ '' [PREFERENCE] ''
      @ [CHR 0xE2, CHR 0x80, CHR 0x94]
      @ '' User preference''
      @ [CHR 0x0A]
      @ ''- ''
      @ [CHR 0xE2, CHR 0x9A, CHR 0xAA]
      @ '' [TODO] ''
      @ [CHR 0xE2, CHR 0x80, CHR 0x94]
      @ '' Action items''
      @ [CHR 0x0A])"

text \<open>The loop that adds up the sizes of the memory documents; a failing \<open>stat\<close> ends the hook.\<close>

fun sumSizes :: "world \<Rightarrow> string \<Rightarrow> string list \<Rightarrow> nat \<Rightarrow> nat option" where
  "sumSizes w memoryDir [] totalMemoryBytes = Some totalMemoryBytes"
| "sumSizes w memoryDir (f # fs) totalMemoryBytes =
     (if endsWith f ''.md'' \<and> f \<noteq> ''INDEX.md''
      then (case stat w (memoryDir, f) of
              None \<Rightarrow> None
            | Some st \<Rightarrow> sumSizes w memoryDir fs (totalMemoryBytes + fileSize st))
      else sumSizes w memoryDir fs totalMemoryBytes)"

definition totalMemoryBytesOf :: "world \<Rightarrow> string \<Rightarrow> nat option" where
  "totalMemoryBytesOf w memoryDir =
     (case readdir w memoryDir of
        None \<Rightarrow> None
      | Some fs \<Rightarrow> sumSizes w memoryDir fs 0)"

definition setSink :: "event \<Rightarrow> hookContext \<Rightarrow> bootstrapFile list \<Rightarrow> event" where
  "setSink ev ctx sink = ev\<lparr>evContext := Some (ctx\<lparr>bootstrapFiles := Some sink\<rparr>)\<rparr>"

definition sinkOf :: "event \<Rightarrow> bootstrapFile list option" where
  "sinkOf ev = (case evContext ev of None \<Rightarrow> None | Some ctx \<Rightarrow> bootstrapFiles ctx)"

text \<open>
  The handler: the world afterwards (only lines printed are added) and the event, whose
  \<open>context.bootstrapFiles\<close> is the injection sink.
\<close>

definition memoryIndexInject :: "world \<Rightarrow> event \<Rightarrow> world \<times> event" where
  "memoryIndexInject w ev =
     (if evType ev \<noteq> ''agent'' \<or> evAction ev \<noteq> ''bootstrap'' then (w, ev)
      else (case evContext ev of
        None \<Rightarrow> (w, ev)
      | Some ctx \<Rightarrow>
          (case (if truthy (workspaceDir ctx) then workspaceDir ctx else None) of
             None \<Rightarrow> (w, ev)
           | Some wsDir \<Rightarrow>
               (case bootstrapFiles ctx of
                  None \<Rightarrow> (w, ev)
                | Some sink \<Rightarrow>
                    (let memoryDir = dirJoin wsDir ''memory'';
                         indexPath = (memoryDir, ''INDEX.md'')
                     in if \<not> access w indexPath then (say NoIndexFound w, ev)
                        else (case totalMemoryBytesOf w memoryDir of
                                None \<Rightarrow> (w, ev)
                              | Some totalMemoryBytes \<Rightarrow>
                                  if totalMemoryBytes < MEMORY_THRESHOLD_BYTES
                                  then (say (BelowThreshold totalMemoryBytes) w, ev)
                                  else (case readFile w indexPath of
                                          None \<Rightarrow> (say FailedReadIndex w, ev)
                                        | Some indexContent \<Rightarrow>
                                            (let activeContextContent =
                                                   readFile w (memoryDir, ''ACTIVE_CONTEXT.md'');
                                                 combinedContent =
                                                   joinWith nl
                                                     [instruction totalMemoryBytes, ''---'', '''',
                                                      indexContent];
                                                 sink1 = sink @ [\<lparr>name = ''MEMORY_INDEX.md'',
                                                                   content = combinedContent\<rparr>];
                                                 sink2 =
                                                   (case activeContextContent of
                                                      None \<Rightarrow> sink1
                                                    | Some ac \<Rightarrow>
                                                        if ac = [] then sink1
                                                        else sink1 @ [\<lparr>name = ''ACTIVE_CONTEXT.md'',
                                                                         content = ac\<rparr>])
                                             in (say (Injected (utf16Length indexContent) wsDir) w,
                                                 setSink ev ctx sink2)))))))))"

subsection \<open>Concrete bootstraps\<close>

text \<open>
  A memory directory with an index, one large document and a snapshot; the sizes are
  those reported by \<open>stat\<close>. \<open>bootEvent\<close> is the bootstrap of the agent with an empty sink.
\<close>

definition memoryWorld :: "nat \<Rightarrow> string \<Rightarrow> nat \<Rightarrow> world" where
  "memoryWorld notesSize snapshot snapshotSize =
     \<lparr>files =
        [((''/home/u/clawd/memory'', ''INDEX.md''),
          \<lparr>fileContent = ''# Memory Index'', fileSize = 4000, fileMtimeMs = 1000000000\<rparr>),
         ((''/home/u/clawd/memory'', ''notes.md''),
          \<lparr>fileContent = ''# Notes'', fileSize = notesSize, fileMtimeMs = 1000000000\<rparr>),
         ((''/home/u/clawd/memory'', ''ACTIVE_CONTEXT.md''),
          \<lparr>fileContent = snapshot, fileSize = snapshotSize, fileMtimeMs = 1000000000\<rparr>)],
      dirs = [''/home/u/clawd/memory''], logged = []\<rparr>"

definition bootContext :: hookContext where
  "bootContext = \<lparr>workspaceDir = Some ''/home/u/clawd'', bootstrapFiles = Some []\<rparr>"

definition bootEvent :: event where
  "bootEvent = \<lparr>evType = ''agent'', evAction = ''bootstrap'', evContext = Some bootContext\<rparr>"

definition indexUnit :: "nat \<Rightarrow> string \<Rightarrow> bootstrapFile" where
  "indexUnit totalMemoryBytes indexContent =
     \<lparr>name = ''MEMORY_INDEX.md'',
      content = joinWith nl [instruction totalMemoryBytes, ''---'', '''', indexContent]\<rparr>"

definition cfgDefaults :: config where
  "cfgDefaults = \<lparr>agentsList = [], defaultsWorkspace = Some ''~/shared-workspace''\<rparr>"

definition cfgDesmond :: config where
  "cfgDesmond =
     \<lparr>agentsList = [\<lparr>agId = Some ''main'', agName = Some ''Main'', agWorkspace = Some ''~/clawd''\<rparr>,
                    \<lparr>agId = Some ''desmond'', agName = Some ''Desmond'', agWorkspace = None\<rparr>],
      defaultsWorkspace = Some ''~/shared-workspace''\<rparr>"

section \<open>Index builder (generate-memory-index.sh)\<close>

text \<open>
  A document of the corpus, as the loop over \<open>memory/*.md\<close> sees it: its name, its
  bytes, the date printed by \<open>stat\<close> or \<open>date -r\<close>, and whether it is a regular file.
\<close>

record doc =
  fname :: string
  body :: string
  modified :: string
  regular :: bool

datatype marker = Decision | Gotcha | Solution | Pattern | Tradeoff | Fact | Preference | Todo

definition allMarkers :: "marker list" where
  "allMarkers = [Decision, Gotcha, Solution, Pattern, Tradeoff, Fact, Preference, Todo]"

fun markerTag :: "marker \<Rightarrow> string" where
  "markerTag Decision = ''[DECISION]''"
| "markerTag Gotcha = ''[GOTCHA]''"
| "markerTag Solution = ''[SOLUTION]''"
| "markerTag Pattern = ''[PATTERN]''"
| "markerTag Tradeoff = ''[TRADEOFF]''"
| "markerTag Fact = ''[FACT]''"
| "markerTag Preference = ''[PREFERENCE]''"
| "markerTag Todo = ''[TODO]''"

fun markerEmoji :: "marker \<Rightarrow> string" where
  "markerEmoji Decision = [CHR 0xF0, CHR 0x9F, CHR 0x9F, CHR 0xA4]"
| "markerEmoji Gotcha = [CHR 0xF0, CHR 0x9F, CHR 0x94, CHR 0xB4]"
| "markerEmoji Solution = [CHR 0xF0, CHR 0x9F, CHR 0x9F, CHR 0xA1]"
| "markerEmoji Pattern = [CHR 0xF0, CHR 0x9F, CHR 0x94, CHR 0xB5]"
| "markerEmoji Tradeoff = [CHR 0xE2, CHR 0x9A, CHR 0x96, CHR 0xEF, CHR 0xB8, CHR 0x8F]"
| "markerEmoji Fact = [CHR 0xF0, CHR 0x9F, CHR 0x9F, CHR 0xA2]"
| "markerEmoji Preference = [CHR 0xF0, CHR 0x9F, CHR 0x9F, CHR 0xA3]"
| "markerEmoji Todo = [CHR 0xE2, CHR 0x9A, CHR 0xAA]"

text \<open>The lines of a file as \<open>grep\<close> reads them: a final newline ends the last line.\<close>

definition fileLines :: "string \<Rightarrow> string list" where
  "fileLines b = (let ls = splitOn CHR 0x0A b in if last ls = [] then butlast ls else ls)"

text \<open>\<open>grep -c\<close> of a bracketed tag: the number of lines that contain it.\<close>

definition grepCount :: "string \<Rightarrow> string \<Rightarrow> nat" where
  "grepCount tag b = length (filter (\<lambda>l. includesStr l tag) (fileLines b))"

definition countMarker :: "marker \<Rightarrow> string \<Rightarrow> nat" where
  "countMarker m b = grepCount (markerTag m) b"

definition estimate_tokens :: "nat \<Rightarrow> nat" where
  "estimate_tokens bytes = bytes div 4"

definition format_size :: "nat \<Rightarrow> string" where
  "format_size bytes =
     (if bytes \<ge> 1048576 then showNat (bytes div 1048576) @ ''MB''
      else if bytes \<ge> 1024 then showNat (bytes div 1024) @ ''KB''
      else showNat bytes @ ''B'')"

datatype category = Core | Uqual | Research | Session | Config | Plan | Project | Other

text \<open>
  The globals of the script: the running totals, \<open>OBS_STR\<close>, and the lines collected in
  the temporary file of each category.
\<close>

record globals =
  TOTAL_SIZE :: nat
  TOTAL_FILES :: nat
  TOTAL_DECISIONS :: nat
  TOTAL_GOTCHAS :: nat
  TOTAL_SOLUTIONS :: nat
  TOTAL_PATTERNS :: nat
  TOTAL_TODOS :: nat
  OBS_STR :: string
  rows :: "category \<Rightarrow> string list"

definition initialGlobals :: globals where
  "initialGlobals =
     \<lparr>TOTAL_SIZE = 0, TOTAL_FILES = 0, TOTAL_DECISIONS = 0, TOTAL_GOTCHAS = 0,
      TOTAL_SOLUTIONS = 0, TOTAL_PATTERNS = 0, TOTAL_TODOS = 0, OBS_STR = [],
      rows = (\<lambda>c. [])\<rparr>"

definition obsPart :: "marker \<Rightarrow> string \<Rightarrow> string" where
  "obsPart m b = (if countMarker m b > 0 then showNat (countMarker m b) @ markerEmoji m @ '' '' else [])"

definition count_observations :: "string \<Rightarrow> globals \<Rightarrow> globals" where
  "count_observations b g =
     (let decisions = countMarker Decision b;
          gotchas = countMarker Gotcha b;
          solutions = countMarker Solution b;
          patterns = countMarker Pattern b;
          todos = countMarker Todo b;
          obs = concat (map (\<lambda>m. obsPart m b) allMarkers)
      in g\<lparr>TOTAL_DECISIONS := TOTAL_DECISIONS g + decisions,
            TOTAL_GOTCHAS := TOTAL_GOTCHAS g + gotchas,
            TOTAL_SOLUTIONS := TOTAL_SOLUTIONS g + solutions,
            TOTAL_PATTERNS := TOTAL_PATTERNS g + patterns,
            TOTAL_TODOS := TOTAL_TODOS g + todos,
            OBS_STR := (if obs = [] then emDash else obs)\<rparr>)"

definition get_title :: "doc \<Rightarrow> string" where
  "get_title d =
     (let heading = (case find (\<lambda>l. startsWith l ''#'') (fileLines (body d)) of
                       None \<Rightarrow> []
                     | Some l \<Rightarrow> dropWhile (\<lambda>c. c = CHR '' '') (dropWhile (\<lambda>c. c = CHR ''#'') l))
      in if heading \<noteq> [] then take 60 heading else basenameExt (fname d) ''.md'')"

definition isDigit :: "char \<Rightarrow> bool" where
  "isDigit c = (CHR ''0'' \<le> c \<and> c \<le> CHR ''9'')"

text \<open>The glob \<open>20[0-9][0-9]-[0-9][0-9]-[0-9][0-9]*\<close>.\<close>

definition datedName :: "string \<Rightarrow> bool" where
  "datedName f =
     (case f of
        c0 # c1 # c2 # c3 # c4 # c5 # c6 # c7 # c8 # c9 # rest \<Rightarrow>
          c0 = CHR ''2'' \<and> c1 = CHR ''0'' \<and> isDigit c2 \<and> isDigit c3 \<and> c4 = CHR ''-''
          \<and> isDigit c5 \<and> isDigit c6 \<and> c7 = CHR ''-'' \<and> isDigit c8 \<and> isDigit c9
      | _ \<Rightarrow> False)"

text \<open>The \<open>case\<close> on the file name: the first pattern that matches decides.\<close>

definition categorize :: "string \<Rightarrow> category" where
  "categorize f =
     (if f = ''ACTIVE_CONTEXT.md'' \<or> f = ''overnight-run-state.md'' \<or> f = ''slack-mission-control.md''
      then Core
      else if startsWith f ''uqual-'' then Uqual
      else if startsWith f ''research-'' then Research
      else if datedName f then Session
      else if endsWith f ''-config.md'' \<or> startsWith f ''credentials-'' then Config
      else if startsWith f ''plan-'' \<or> startsWith f ''procedure-'' then Plan
      else if includesStr f ''-setup'' \<or> includesStr f ''-checklist'' then Project
      else Other)"

definition rowLine :: "doc \<Rightarrow> string \<Rightarrow> string" where
  "rowLine d obs =
     ''| '' @ fname d @ '' | '' @ get_title d @ '' | '' @ format_size (length (body d))
     @ '' | ~'' @ showNat (estimate_tokens (length (body d))) @ '' | '' @ obs
     @ '' | '' @ modified d @ '' |''"

text \<open>One turn of the loop over the documents.\<close>

definition processFile :: "globals \<Rightarrow> doc \<Rightarrow> globals" where
  "processFile g d =
     (if \<not> regular d then g
      else if fname d = ''INDEX.md'' then g
      else (let fsize = length (body d);
                g1 = g\<lparr>TOTAL_SIZE := TOTAL_SIZE g + fsize, TOTAL_FILES := TOTAL_FILES g + 1\<rparr>;
                g2 = count_observations (body d) g1;
                line = rowLine d (OBS_STR g2);
                c = categorize (fname d)
            in g2\<lparr>rows := (rows g2)(c := rows g2 c @ [line])\<rparr>))"

definition scanCorpus :: "doc list \<Rightarrow> globals" where
  "scanCorpus docs = foldl processFile initialGlobals docs"

text \<open>
  The totals printed in the \<open>Observations\<close> line of the header, in order, each with the
  word that follows it.
\<close>

definition observationTotals :: "globals \<Rightarrow> (marker \<times> nat) list" where
  "observationTotals g =
     [(Decision, TOTAL_DECISIONS g), (Gotcha, TOTAL_GOTCHAS g), (Solution, TOTAL_SOLUTIONS g),
      (Pattern, TOTAL_PATTERNS g), (Todo, TOTAL_TODOS g)]"

fun markerWord :: "marker \<Rightarrow> string" where
  "markerWord Decision = ''decisions''"
| "markerWord Gotcha = ''gotchas''"
| "markerWord Solution = ''solutions''"
| "markerWord Pattern = ''patterns''"
| "markerWord Tradeoff = ''tradeoffs''"
| "markerWord Fact = ''facts''"
| "markerWord Preference = ''preferences''"
| "markerWord Todo = ''todos''"

definition observationsLine :: "globals \<Rightarrow> string" where
  "observationsLine g =
     ''> **Observations**: ''
     @ joinWith '' | ''
         (map (\<lambda>(m, n). showNat n @ markerEmoji m @ '' '' @ markerWord m) (observationTotals g))"

definition headerLines :: "string \<Rightarrow> globals \<Rightarrow> string list" where
  "headerLines generated g =
     [''# Memory Index'',
      ''> **Generated**: '' @ generated @ '' | **Files**: '' @ showNat (TOTAL_FILES g)
        @ '' | **Size**: '' @ format_size (TOTAL_SIZE g)
        @ '' | **~Tokens**: '' @ showNat (estimate_tokens (TOTAL_SIZE g)),
      observationsLine g,
      '''',
      ''## How to Use This Index'',
      (''- **Don''
        @ [CHR 0x27]
        @ ''t load everything.** Use `memory_search` to find relevant files,''
        @ '' then `memory_get` to read specific sections.''),
      ''- **Always load**: ACTIVE_CONTEXT.md (current working state)'',
      ''- **Load on demand**: Everything else based on the task at hand'',
      (''- Observation markers: ''
        @ [CHR 0xF0, CHR 0x9F, CHR 0x94, CHR 0xB4]
        @ '' GOTCHA | ''
        @ [CHR 0xF0, CHR 0x9F, CHR 0x9F, CHR 0xA4]
        @ '' DECISION | ''
        @ [CHR 0xE2, CHR 0x9A, CHR 0x96, CHR 0xEF, CHR 0xB8, CHR 0x8F]
        @ '' TRADEOFF | ''
        @ [CHR 0xF0, CHR 0x9F, CHR 0x9F, CHR 0xA1]
        @ '' SOLUTION | ''
        @ [CHR 0xF0, CHR 0x9F, CHR 0x94, CHR 0xB5]
        @ '' PATTERN | ''
        @ [CHR 0xF0, CHR 0x9F, CHR 0x9F, CHR 0xA2]
        @ '' FACT | ''
        @ [CHR 0xF0, CHR 0x9F, CHR 0x9F, CHR 0xA3]
        @ '' PREFERENCE | ''
        @ [CHR 0xE2, CHR 0x9A, CHR 0xAA]
        @ '' TODO''),
      '''']"

definition TABLE_HEADER :: "string list" where
  "TABLE_HEADER =
     [''| File | Title | Size | Tokens | Observations | Modified |'',
      ''|------|-------|------|--------|-------------|----------|'']"

text \<open>The rest of a line from the start of field \<open>n + 1\<close>, fields being separated by a bar.\<close>

fun dropFields :: "nat \<Rightarrow> string \<Rightarrow> string" where
  "dropFields 0 s = s"
| "dropFields (Suc n) [] = []"
| "dropFields (Suc n) (c # cs) = (if c = CHR ''|'' then dropFields n cs else dropFields (Suc n) cs)"

text \<open>
  \<open>sort -t'|' -k6 -r\<close>: the key runs from the start of the sixth field to the end of the
  line; lines are compared by key, then as a whole, bytewise, and the order is reversed.
\<close>

definition sortRows :: "string list \<Rightarrow> string list" where
  "sortRows ls = rev (sort_key (\<lambda>l. (dropFields 5 l, l)) ls)"

definition write_category :: "string \<Rightarrow> string list \<Rightarrow> string \<Rightarrow> string list" where
  "write_category label ls desc =
     (if ls \<noteq> []
      then ['''', ''### '' @ label] @ (if desc \<noteq> [] then [''_'' @ desc @ ''_''] else [])
           @ [''''] @ TABLE_HEADER @ sortRows ls
      else [])"

definition categoryOrder :: "(category \<times> string \<times> string) list" where
  "categoryOrder =
     [(Core,
       ([CHR 0xF0, CHR 0x9F, CHR 0x94, CHR 0x91]
       @ '' Core State (always load ACTIVE_CONTEXT)''),
       (''Current working state, overnight run status, mission control con''
       @ ''fig'')),
      (Uqual,
       ([CHR 0xF0, CHR 0x9F, CHR 0x8F, CHR 0xA2]
       @ '' UQUAL Domain''),
       (''Business strategy, repos, credit/finance domain, marketing conte''
       @ ''xt'')),
      (Plan,
       ([CHR 0xF0, CHR 0x9F, CHR 0x93, CHR 0x8B]
       @ '' Plans & Procedures''),
       ''Implementation plans, deployment procedures, checklists''),
      (Config,
       ([CHR 0xE2, CHR 0x9A, CHR 0x99, CHR 0xEF, CHR 0xB8, CHR 0x8F]
       @ '' Config & Credentials''),
       ''Integration configs, API keys, service connections''),
      (Research,
       ([CHR 0xF0, CHR 0x9F, CHR 0x94, CHR 0xAC]
       @ '' Research Reports''),
       ''Deep research output from sub-agents''),
      (Project,
       ([CHR 0xF0, CHR 0x9F, CHR 0x8F, CHR 0x97, CHR 0xEF, CHR 0xB8, CHR 0x8F]
       @ '' Project Setup''),
       ''Agent setup checklists, project scaffolding''),
      (Session,
       ([CHR 0xF0, CHR 0x9F, CHR 0x93, CHR 0x85]
       @ '' Session Logs''),
       ''Daily session notes and decisions''),
      (Other,
       ([CHR 0xF0, CHR 0x9F, CHR 0x93, CHR 0x81]
       @ '' Other''),
       ''Uncategorized memory files'')]"

text \<open>The lines of \<open>INDEX.md\<close>; \<open>generated\<close> is the date stamp of the run.\<close>

definition indexLines :: "string \<Rightarrow> globals \<Rightarrow> string list" where
  "indexLines generated g =
     headerLines generated g
     @ concat (map (\<lambda>(c, label, desc). write_category label (rows g c) desc) categoryOrder)"

definition generateIndex :: "string \<Rightarrow> doc list \<Rightarrow> string" where
  "generateIndex generated docs =
     concat (map (\<lambda>l. l @ nl) (indexLines generated (scanCorpus docs)))"

text \<open>The rows of the section of a category in the index that is written.\<close>

definition sectionRows :: "doc list \<Rightarrow> category \<Rightarrow> string list" where
  "sectionRows docs c = sortRows (rows (scanCorpus docs) c)"

subsection \<open>Concrete corpora\<close>

text \<open>
  Two plans: the older one records two decisions, the newer one a single decision. And
  a document whose only marker is a tradeoff.
\<close>

definition planOlder :: doc where
  "planOlder =
     \<lparr>fname = ''plan-a.md'',
      body = ''# Plan A'' @ nl @ ''[DECISION] use sqlite'' @ nl @ ''[DECISION] ship friday'' @ nl,
      modified = ''2026-01-01'', regular = True\<rparr>"

definition planNewer :: doc where
  "planNewer =
     \<lparr>fname = ''plan-b.md'',
      body = ''# Plan B'' @ nl @ ''[DECISION] use postgres'' @ nl,
      modified = ''2026-02-01'', regular = True\<rparr>"

definition tradeoffDoc :: doc where
  "tradeoffDoc =
     \<lparr>fname = ''notes.md'',
      body = ''# Notes'' @ nl @ ''[TRADEOFF] speed over memory'' @ nl,
      modified = ''2026-02-01'', regular = True\<rparr>"

subsection \<open>The documents indexed and their marker counts\<close>

definition indexed :: "doc list \<Rightarrow> doc list" where
  "indexed docs = filter (\<lambda>d. regular d \<and> fname d \<noteq> ''INDEX.md'') docs"

definition corpusCount :: "marker \<Rightarrow> doc list \<Rightarrow> nat" where
  "corpusCount m docs = sum_list (map (\<lambda>d. countMarker m (body d)) (indexed docs))"

section \<open>Facts about strings\<close>

lemma startsWith_iff: "startsWith s p \<longleftrightarrow> (\<exists>r. s = p @ r)"
  by (induction s p rule: startsWith.induct) auto

lemma includesStr_iff: "includesStr s n \<longleftrightarrow> (\<exists>a b. s = a @ n @ b)"
proof (induction s)
  case Nil
  then show ?case by auto
next
  case (Cons c cs)
  show ?case
  proof
    assume "includesStr (c # cs) n"
    then consider "startsWith (c # cs) n" | "includesStr cs n" by auto
    then show "\<exists>a b. c # cs = a @ n @ b"
    proof cases
      case 1
      then obtain r where "c # cs = n @ r" by (auto simp: startsWith_iff)
      then have "c # cs = [] @ n @ r" by simp
      then show ?thesis by blast
    next
      case 2
      then obtain a b where "cs = a @ n @ b" using Cons.IH by auto
      then have "c # cs = (c # a) @ n @ b" by simp
      then show ?thesis by blast
    qed
  next
    assume "\<exists>a b. c # cs = a @ n @ b"
    then obtain a b where ab: "c # cs = a @ n @ b" by auto
    show "includesStr (c # cs) n"
    proof (cases a)
      case Nil
      with ab have "startsWith (c # cs) n" by (auto simp: startsWith_iff)
      then show ?thesis by simp
    next
      case (Cons x xs)
      with ab have "cs = xs @ n @ b" by simp
      then have "includesStr cs n" using Cons.IH by blast
      then show ?thesis by simp
    qed
  qed
qed

lemma digitChar_in: "digitChar d \<in> set ''0123456789''"
  unfolding digitChar_def by (rule nth_mem) simp

lemma showNat_hd: "\<exists>c cs. showNat n = c # cs \<and> c \<in> set ''0123456789''"
proof (induction n rule: showNat.induct)
  case (1 n)
  show ?case
  proof (cases "n < 10")
    case True
    then show ?thesis using digitChar_in [of n] by (subst showNat.simps) simp
  next
    case False
    with 1 obtain c cs where "showNat (n div 10) = c # cs" "c \<in> set ''0123456789''" by blast
    with False show ?thesis by (subst showNat.simps) simp
  qed
qed

section \<open>Properties of the rotation controller\<close>

lemma issued_rotateEach:
  "issued (rotateEach gw dry cs st) = issued st @ (if dry then [] else map key cs)"
  by (induction cs arbitrary: st) (auto split: call.splits)

lemma rotationMain_issued:
  "sessionsList gw = Returns (Some ss) \<Longrightarrow>
   fst (rotationMain gw dry T) = (if dry then [] else map key (filter (isCandidate T) ss))"
  by (simp add: rotationMain_def Let_def issued_rotateEach)

lemma rotationMain_issued_subset:
  "set (fst (rotationMain gw dry T)) \<subseteq> key ` {s. isCandidate T s}"
  by (auto simp: rotationMain_def Let_def issued_rotateEach split: call.splits option.splits)

lemma isCandidate_iff:
  "isCandidate T s \<longleftrightarrow>
     (\<exists>t k. totalTokens s = Some t \<and> t \<noteq> 0 \<and> T \<le> t \<and> key s = Some k \<and> k \<noteq> []
            \<and> \<not> matchesSkipPattern k)"
  by (auto simp: isCandidate_def split: option.splits)

lemma matchesSkipPattern_examples:
  "matchesSkipPattern ''agent:main:cron:nightly''"
  "matchesSkipPattern ''agent:max:subagent:42''"
  "\<not> matchesSkipPattern ''agent:main:slack:dm:u1''"
  "\<not> matchesSkipPattern ''xagent:main:cron:nightly''"
  "\<not> matchesSkipPattern (''agent:a'' @ [CHR 0x0A] @ '':cron:'')"
  by (simp_all add: matchesSkipPattern_def SKIP_PATTERNS_def agentKindPattern_def
        lineTerminatorAt_def)

text \<open>
  C1, as the code has it. Outside the preview mode the rotate commands sent are, in the
  order of the registry list, one for each session whose token count is not zero and
  is at or above the threshold and whose key is not empty and matches no exclusion
  pattern. The preview mode sends none.
\<close>

theorem rotation_commands_at_or_above_threshold:
  assumes "sessionsList gw = Returns (Some ss)"
  shows "fst (rotationMain gw False T) =
           map key (filter (\<lambda>s. \<exists>t k. totalTokens s = Some t \<and> t \<noteq> 0 \<and> T \<le> t
                                   \<and> key s = Some k \<and> k \<noteq> [] \<and> \<not> matchesSkipPattern k) ss)
         \<and> fst (rotationMain gw True T) = []"
proof -
  have "filter (isCandidate T) ss =
        filter (\<lambda>s. \<exists>t k. totalTokens s = Some t \<and> t \<noteq> 0 \<and> T \<le> t
                      \<and> key s = Some k \<and> k \<noteq> [] \<and> \<not> matchesSkipPattern k) ss"
    by (rule filter_cong) (simp_all add: isCandidate_iff)
  with assms show ?thesis
    by (simp add: rotationMain_issued)
qed

text \<open>Scenario C: exactly one rotate command, for the key of the session.\<close>

theorem rotation_commands_at_or_above_threshold_witness:
  "sessionsList (registryOf [sessionC]) = Returns (Some [sessionC])
   \<and> fst (rotationMain (registryOf [sessionC]) False 150000) = [Some ''agent:main:slack:dm:u1'']
   \<and> fst (rotationMain (registryOf [sessionC]) True 150000) = []"
proof -
  have h: "sessionsList (registryOf [sessionC]) = Returns (Some [sessionC])"
    by (simp add: registryOf_def)
  have m: "\<not> matchesSkipPattern ''agent:main:slack:dm:u1''"
    by (rule matchesSkipPattern_examples)
  show ?thesis
    using rotation_commands_at_or_above_threshold [OF h, of 150000] h m
    by (simp add: sessionC_def)
qed

text \<open>
  C1 as stated fails at the boundary: a session at exactly the threshold, with no
  exclusion match, is a candidate and its rotate command is sent.
\<close>

theorem rotation_at_threshold_counterexample:
  "totalTokens sessionAtThreshold = Some 150000
   \<and> isCandidate 150000 sessionAtThreshold
   \<and> fst (rotationMain (registryOf [sessionAtThreshold]) False 150000)
       = [Some ''agent:main:slack:dm:u1'']"
proof -
  have m: "\<not> matchesSkipPattern ''agent:main:slack:dm:u1''"
    by (rule matchesSkipPattern_examples)
  have c: "isCandidate 150000 sessionAtThreshold"
    using m by (simp add: isCandidate_def sessionAtThreshold_def)
  have "fst (rotationMain (registryOf [sessionAtThreshold]) False 150000)
          = map key (filter (isCandidate 150000) [sessionAtThreshold])"
    by (simp add: rotationMain_issued registryOf_def)
  with c show ?thesis
    by (simp add: sessionAtThreshold_def)
qed

text \<open>
  C2. A key that matches an exclusion pattern is never the key of a rotate command,
  whatever the registry returns, the threshold and the mode.
\<close>

theorem excluded_key_never_rotated:
  "matchesSkipPattern k \<Longrightarrow> Some k \<notin> set (fst (rotationMain gw dry T))"
proof
  assume ex: "matchesSkipPattern k" and "Some k \<in> set (fst (rotationMain gw dry T))"
  then obtain s where "key s = Some k" "isCandidate T s"
    using rotationMain_issued_subset [of gw dry T] by force
  then have "\<not> matchesSkipPattern k"
    by (auto simp: isCandidate_iff)
  with ex show False by simp
qed

theorem excluded_key_never_rotated_witness:
  "matchesSkipPattern ''agent:main:cron:nightly''
   \<and> Some ''agent:main:cron:nightly''
       \<notin> set (fst (rotationMain (registryOf [sessionCron, sessionC]) False 150000))
   \<and> fst (rotationMain (registryOf [sessionCron, sessionC]) False 150000)
       = [Some ''agent:main:slack:dm:u1'']"
proof -
  have h: "matchesSkipPattern ''agent:main:cron:nightly''"
    by (rule matchesSkipPattern_examples)
  have m: "\<not> matchesSkipPattern ''agent:main:slack:dm:u1''"
    by (rule matchesSkipPattern_examples)
  have "fst (rotationMain (registryOf [sessionCron, sessionC]) False 150000)
          = map key (filter (isCandidate 150000) [sessionCron, sessionC])"
    by (simp add: rotationMain_issued registryOf_def)
  then have r: "fst (rotationMain (registryOf [sessionCron, sessionC]) False 150000)
          = [Some ''agent:main:slack:dm:u1'']"
    using h m by (simp add: isCandidate_def sessionCron_def sessionC_def)
  show ?thesis
    using excluded_key_never_rotated [OF h, of "registryOf [sessionCron, sessionC]" False 150000] h r
    by simp
qed

section \<open>Properties of the checkpoint pipeline\<close>

subsection \<open>Effects on files\<close>

lemma readFile_say [simp]: "readFile (say l w) p = readFile w p"
  by (simp add: readFile_def say_def)

lemma readFile_mkdir: "mkdir e w d = Some w' \<Longrightarrow> readFile w' p = readFile w p"
  by (auto simp: mkdir_def readFile_def split: if_splits)

lemma readFile_writeFile:
  "writeFile e w p d = Some w' \<Longrightarrow> readFile w' q = (if q = p then Some d else readFile w q)"
  by (auto simp: writeFile_def readFile_def update_conv' split: if_splits)

lemma readFile_writeActiveContext:
  "q \<noteq> p \<Longrightarrow> readFile (writeActiveContext e a p c w) q = readFile w q"
  by (auto simp: writeActiveContext_def readFile_writeFile split: option.splits)

lemma readFile_appendDaily_skip:
  "readFile w p = Some c \<Longrightarrow> includesStr c (''Checkpoint '' @ take 4 (runTime e)) \<Longrightarrow>
   appendDaily e a ds p entry w = w"
  by (simp add: appendDaily_def)

lemma readFile_appendDaily_cases:
  "readFile (appendDaily e a ds p entry w) p = readFile w p
   \<or> (\<exists>x. readFile (appendDaily e a ds p entry w) p = Some (x @ entry))"
  by (auto simp: appendDaily_def Let_def readFile_writeFile split: option.splits)

lemma dateStr_not_snapshot: "dateStrOf e @ ''.md'' \<noteq> ''ACTIVE_CONTEXT.md''"
proof -
  obtain c cs where "showNat (fullYear e) = c # cs" "c \<in> set ''0123456789''"
    using showNat_hd by blast
  then show ?thesis by (auto simp: dateStrOf_def)
qed

lemma dailyFile_not_snapshot: "dailyFileOf toLowerCase e cfg a \<noteq> activeContextFileOf toLowerCase e cfg a"
  by (simp add: dailyFileOf_def activeContextFileOf_def dateStr_not_snapshot)

lemma buildDailyEntry_header:
  "\<exists>r. buildDailyEntry e a msgs = ''### Checkpoint '' @ entryTime e @ r"
  by (simp add: buildDailyEntry_def Let_def)

lemma includes_entry:
  "includesStr (x @ buildDailyEntry e a msgs) (''Checkpoint '' @ take 4 (entryTime e))"
proof -
  obtain r where r: "buildDailyEntry e a msgs = ''### Checkpoint '' @ entryTime e @ r"
    using buildDailyEntry_header by blast
  have "x @ buildDailyEntry e a msgs =
        (x @ ''### '') @ (''Checkpoint '' @ take 4 (entryTime e)) @ (drop 4 (entryTime e) @ r)"
    unfolding r by simp
  then show ?thesis unfolding includesStr_iff by blast
qed


lemma checkpointAgent_writes:
  assumes "findActiveSession e w a = Some sess"
    and "readLastLines w (sessionPath sess) MAX_LINES = Some lines"
    and "\<not> length (extractMessages e lines) < 3"
    and "mkdir e w (memoryDirOf toLowerCase e cfg a) = Some w1"
    and "\<not> DRY_RUN e"
  shows "checkpointAgent toLowerCase e cfg (Some a) w =
           (Inr True,
            appendDaily e a (dateStrOf e) (dailyFileOf toLowerCase e cfg a)
              (buildDailyEntry e a (extractMessages e lines))
              (writeActiveContext e a (activeContextFileOf toLowerCase e cfg a)
                 (buildActiveContext e a (extractMessages e lines) (sessionPath sess)) w1))"
  using assms by (simp add: checkpointAgent_def Let_def)

lemma checkpointAgent_no_writes:
  assumes "\<not> (\<exists>sess lines w1. findActiveSession e w a = Some sess
              \<and> readLastLines w (sessionPath sess) MAX_LINES = Some lines
              \<and> \<not> length (extractMessages e lines) < 3
              \<and> mkdir e w (memoryDirOf toLowerCase e cfg a) = Some w1 \<and> \<not> DRY_RUN e)"
  shows "readFile (snd (checkpointAgent toLowerCase e cfg (Some a) w)) p = readFile w p"
  using assms
  by (auto simp: checkpointAgent_def Let_def readFile_mkdir split: option.splits)

lemma checkpointAgent_daily_cases:
  "readFile (snd (checkpointAgent toLowerCase e cfg (Some a) w)) (dailyFileOf toLowerCase e cfg a)
     = readFile w (dailyFileOf toLowerCase e cfg a)
   \<or> (\<exists>x msgs. readFile (snd (checkpointAgent toLowerCase e cfg (Some a) w)) (dailyFileOf toLowerCase e cfg a)
                  = Some (x @ buildDailyEntry e a msgs))"
proof (cases "\<exists>sess lines w1. findActiveSession e w a = Some sess
              \<and> readLastLines w (sessionPath sess) MAX_LINES = Some lines
              \<and> \<not> length (extractMessages e lines) < 3
              \<and> mkdir e w (memoryDirOf toLowerCase e cfg a) = Some w1 \<and> \<not> DRY_RUN e")
  case False
  then show ?thesis by (simp add: checkpointAgent_no_writes)
next
  case True
  then obtain sess lines w1 where h: "findActiveSession e w a = Some sess"
      "readLastLines w (sessionPath sess) MAX_LINES = Some lines"
      "\<not> length (extractMessages e lines) < 3"
      "mkdir e w (memoryDirOf toLowerCase e cfg a) = Some w1" "\<not> DRY_RUN e"
    by blast
  let ?d = "dailyFileOf toLowerCase e cfg a"
  let ?w2 = "writeActiveContext e a (activeContextFileOf toLowerCase e cfg a)
               (buildActiveContext e a (extractMessages e lines) (sessionPath sess)) w1"
  let ?entry = "buildDailyEntry e a (extractMessages e lines)"
  have r2: "readFile ?w2 ?d = readFile w ?d"
    using h(4) by (simp add: readFile_writeActiveContext dailyFile_not_snapshot readFile_mkdir)
  have "readFile (appendDaily e a (dateStrOf e) ?d ?entry ?w2) ?d = readFile ?w2 ?d
        \<or> (\<exists>x. readFile (appendDaily e a (dateStrOf e) ?d ?entry ?w2) ?d = Some (x @ ?entry))"
    by (rule readFile_appendDaily_cases)
  then show ?thesis
    unfolding checkpointAgent_writes [OF h] r2 by auto
qed

lemma checkpointAgent_daily_skip:
  assumes "readFile w (dailyFileOf toLowerCase e cfg a) = Some c"
    and "includesStr c (''Checkpoint '' @ take 4 (runTime e))"
  shows "readFile (snd (checkpointAgent toLowerCase e cfg (Some a) w)) (dailyFileOf toLowerCase e cfg a) = Some c"
proof (cases "\<exists>sess lines w1. findActiveSession e w a = Some sess
              \<and> readLastLines w (sessionPath sess) MAX_LINES = Some lines
              \<and> \<not> length (extractMessages e lines) < 3
              \<and> mkdir e w (memoryDirOf toLowerCase e cfg a) = Some w1 \<and> \<not> DRY_RUN e")
  case False
  then show ?thesis using assms(1) by (simp add: checkpointAgent_no_writes)
next
  case True
  then obtain sess lines w1 where h: "findActiveSession e w a = Some sess"
      "readLastLines w (sessionPath sess) MAX_LINES = Some lines"
      "\<not> length (extractMessages e lines) < 3"
      "mkdir e w (memoryDirOf toLowerCase e cfg a) = Some w1" "\<not> DRY_RUN e"
    by blast
  let ?d = "dailyFileOf toLowerCase e cfg a"
  let ?w2 = "writeActiveContext e a (activeContextFileOf toLowerCase e cfg a)
               (buildActiveContext e a (extractMessages e lines) (sessionPath sess)) w1"
  have r2: "readFile ?w2 ?d = Some c"
    using h(4) assms(1)
    by (simp add: readFile_writeActiveContext dailyFile_not_snapshot readFile_mkdir)
  show ?thesis
    unfolding checkpointAgent_writes [OF h]
    using readFile_appendDaily_skip [OF r2 assms(2)] r2 by simp
qed

subsection \<open>Claims about the checkpoint pipeline\<close>

text \<open>
  C3. When fewer than three usable messages survive the filtering of the transcript
  tail, \<open>checkpointAgent\<close> returns \<open>false\<close> and leaves the world as it was: no file is
  written or changed, no directory is created.
\<close>

theorem too_few_messages_skips:
  assumes "findActiveSession e w a = Some sess"
    and "readLastLines w (sessionPath sess) MAX_LINES = Some lines"
    and "length (extractMessages e lines) < 3"
  shows "checkpointAgent toLowerCase e cfg (Some a) w = (Inr False, w)"
  using assms by (simp add: checkpointAgent_def Let_def)

text \<open>
  Scenario A: a transcript with two usable messages, a heartbeat, a message of four
  characters and a malformed line.
\<close>

theorem too_few_messages_skips_witness:
  "findActiveSession plainRun (transcriptWorld transcriptTwo) ''main'' = Some sessionMain
   \<and> readLastLines (transcriptWorld transcriptTwo) (sessionPath sessionMain) MAX_LINES
       = Some [''u1'', ''a1'', ''hb'', ''sh'', ''{broken'']
   \<and> length (extractMessages plainRun [''u1'', ''a1'', ''hb'', ''sh'', ''{broken'']) = 2
   \<and> checkpointAgent asciiToLowerCase plainRun cfgMain (Some ''main'') (transcriptWorld transcriptTwo)
       = (Inr False, transcriptWorld transcriptTwo)"
proof -
  have h1: "findActiveSession plainRun (transcriptWorld transcriptTwo) ''main'' = Some sessionMain"
    by code_simp
  have h2: "readLastLines (transcriptWorld transcriptTwo) (sessionPath sessionMain) MAX_LINES
       = Some [''u1'', ''a1'', ''hb'', ''sh'', ''{broken'']"
    by code_simp
  have h3: "length (extractMessages plainRun [''u1'', ''a1'', ''hb'', ''sh'', ''{broken'']) = 2"
    by code_simp
  have h3': "length (extractMessages plainRun [''u1'', ''a1'', ''hb'', ''sh'', ''{broken'']) < 3"
    using h3 by simp
  show ?thesis
    using too_few_messages_skips [OF h1 h2 h3', where toLowerCase = asciiToLowerCase and cfg = cfgMain] h1 h2 h3 by simp
qed

text \<open>
  C4. Two runs for the same agent, one after the other, with the same home and date and
  with every clock reading in the same minute \<open>t\<close>: at most one of them changes the day
  log. Once the first run has appended its entry, the append of the second is a no-op.
  (The snapshot is written by both.)
\<close>

theorem same_minute_one_day_log_entry:
  assumes "homedir e2 = homedir e1"
    and "fullYear e2 = fullYear e1" and "month e2 = month e1" and "date e2 = date e1"
    and "entryTime e1 = t" and "runTime e1 = t" and "entryTime e2 = t" and "runTime e2 = t"
    and "w1 = snd (checkpointAgent toLowerCase e1 cfg (Some a) w0)"
    and "w2 = snd (checkpointAgent toLowerCase e2 cfg (Some a) w1)"
  shows "readFile w1 (dailyFileOf toLowerCase e1 cfg a) = readFile w0 (dailyFileOf toLowerCase e1 cfg a)
         \<or> readFile w2 (dailyFileOf toLowerCase e1 cfg a) = readFile w1 (dailyFileOf toLowerCase e1 cfg a)"
proof -
  let ?d = "dailyFileOf toLowerCase e1 cfg a"
  have d2: "dailyFileOf toLowerCase e2 cfg a = ?d"
    using assms(1-4) by (simp add: dailyFileOf_def memoryDirOf_def dateStrOf_def)
  consider "readFile w1 ?d = readFile w0 ?d"
    | x msgs where "readFile w1 ?d = Some (x @ buildDailyEntry e1 a msgs)"
    using checkpointAgent_daily_cases [of toLowerCase e1 cfg a w0] assms(9) by auto
  then show ?thesis
  proof cases
    case 1
    then show ?thesis by simp
  next
    case 2
    have "includesStr (x @ buildDailyEntry e1 a msgs) (''Checkpoint '' @ take 4 (runTime e2))"
      using includes_entry [of x e1 a msgs] assms(5,8) by simp
    from checkpointAgent_daily_skip [of w1 toLowerCase e2 cfg a, unfolded d2, OF 2 this]
    show ?thesis using 2 assms(10) by simp
  qed
qed

text \<open>
  Two runs at 14:35 over a transcript with three usable messages: the first creates the
  day log with its entry, the second leaves the day log as it is.
\<close>

theorem same_minute_one_day_log_entry_witness:
  "readFile afterFirstRun dailyMain \<noteq> readFile (transcriptWorld transcriptThree) dailyMain
   \<and> readFile afterSecondRun dailyMain = readFile afterFirstRun dailyMain"
proof -
  have d: "dailyFileOf asciiToLowerCase plainRun cfgMain ''main'' = dailyMain"
    by code_simp
  have first: "readFile afterFirstRun dailyMain \<noteq> readFile (transcriptWorld transcriptThree) dailyMain"
    by code_simp
  have t: "entryTime plainRun = ''14:35''" "runTime plainRun = ''14:35''"
    by (simp_all add: plainRun_def runEnv_def)
  show ?thesis
    using same_minute_one_day_log_entry [OF refl refl refl refl t t afterFirstRun_def afterSecondRun_def]
      first
    unfolding d by simp
qed

text \<open>
  Two failures that do keep an agent out of the tally: a memory directory that cannot be
  created, and an exception leaving \<open>checkpointAgent\<close>, after which the batch goes on
  with the next agent.
\<close>

lemma mkdir_failure_not_counted:
  "checkpointMain asciiToLowerCase mkdirDenied (Some cfgMain) (transcriptWorld transcriptThree)
     = (0, 0, \<lparr>files = files (transcriptWorld transcriptThree), dirs = [],
               logged = [FailedMkdir ''main'' ''/home/u/clawd/memory'', DoneCheckpointed 0 1]\<rparr>)"
  by code_simp

lemma thrown_error_isolated:
  "fst (snd (checkpointMain asciiToLowerCase plainRun (Some cfgNameless) (transcriptWorld transcriptThree))) = 1
   \<and> logged (snd (snd (checkpointMain asciiToLowerCase plainRun (Some cfgNameless) (transcriptWorld transcriptThree))))
       = [AgentError None ''ERR_INVALID_ARG_TYPE'', DoneCheckpointed 1 2]"
  by code_simp

text \<open>
  C9, where the code departs from it. Every write below the memory directory of the only
  agent fails; both failures are caught and printed, the batch goes on to its tally, and
  the tally counts the agent as checkpointed: \<open>checkpointAgent\<close> returns \<open>true\<close> after
  the two \<open>catch\<close> blocks.
\<close>

theorem write_failures_counted_as_checkpointed:
  "checkpointMain asciiToLowerCase readOnlyMemory (Some cfgMain) (transcriptWorld transcriptThree)
     = (0, 1, \<lparr>files = files (transcriptWorld transcriptThree),
               dirs = [''/home/u/clawd/memory''],
               logged = [FailedWriteActiveContext ''main'', FailedAppendDaily ''main'',
                         DoneCheckpointed 1 1]\<rparr>)"
  by code_simp

section \<open>Properties of the disclosure planner\<close>

lemma inject_at_or_above:
  assumes "evType ev = ''agent''" and "evAction ev = ''bootstrap''"
    and "evContext ev = Some ctx" and "workspaceDir ctx = Some wsDir" and "wsDir \<noteq> []"
    and "bootstrapFiles ctx = Some sink"
    and "readFile w (dirJoin wsDir ''memory'', ''INDEX.md'') = Some indexContent"
    and "totalMemoryBytesOf w (dirJoin wsDir ''memory'') = Some tot"
    and "MEMORY_THRESHOLD_BYTES \<le> tot"
  shows "memoryIndexInject w ev =
           (say (Injected (utf16Length indexContent) wsDir) w,
            setSink ev ctx
              (sink @ [indexUnit tot indexContent]
               @ (case readFile w (dirJoin wsDir ''memory'', ''ACTIVE_CONTEXT.md'') of
                    None \<Rightarrow> []
                  | Some ac \<Rightarrow> if ac = [] then []
                               else [\<lparr>name = ''ACTIVE_CONTEXT.md'', content = ac\<rparr>])))"
proof -
  have a: "access w (dirJoin wsDir ''memory'', ''INDEX.md'')"
    using assms(7) by (auto simp: access_def readFile_def)
  show ?thesis
    using assms a
    by (simp add: memoryIndexInject_def Let_def truthy_def indexUnit_def split: option.splits)
qed

lemma sinkOf_setSink [simp]: "sinkOf (setSink ev ctx s) = Some s"
  by (simp add: sinkOf_def setSink_def)

lemma hook_reads_only:
  "files (fst (memoryIndexInject w ev)) = files w \<and> dirs (fst (memoryIndexInject w ev)) = dirs w"
  by (simp add: memoryIndexInject_def Let_def say_def split: option.splits)

text \<open>
  C5. At a bootstrap with a workspace and a sink, when the index document exists and
  the sizes of the memory documents other than the index add up to exactly the
  threshold, the index unit is appended to the sink.
\<close>

theorem injects_index_at_exact_threshold:
  assumes "evType ev = ''agent''" and "evAction ev = ''bootstrap''"
    and "evContext ev = Some ctx" and "workspaceDir ctx = Some wsDir" and "wsDir \<noteq> []"
    and "bootstrapFiles ctx = Some sink"
    and "readFile w (dirJoin wsDir ''memory'', ''INDEX.md'') = Some indexContent"
    and "totalMemoryBytesOf w (dirJoin wsDir ''memory'') = Some MEMORY_THRESHOLD_BYTES"
  shows "\<exists>rest. sinkOf (snd (memoryIndexInject w ev))
           = Some (sink @ \<lparr>name = ''MEMORY_INDEX.md'',
                            content = instruction MEMORY_THRESHOLD_BYTES @ nl @ ''---'' @ nl @ nl
                                        @ indexContent\<rparr> # rest)"
  using inject_at_or_above [OF assms order_refl]
  by (simp add: indexUnit_def)

text \<open>A memory pool of 51,000 + 200 = 51,200 bytes, the threshold.\<close>

theorem injects_index_at_exact_threshold_witness:
  "readFile (memoryWorld 51000 ''# Active Context'' 200) (dirJoin ''/home/u/clawd'' ''memory'', ''INDEX.md'')
     = Some ''# Memory Index''
   \<and> totalMemoryBytesOf (memoryWorld 51000 ''# Active Context'' 200) (dirJoin ''/home/u/clawd'' ''memory'')
       = Some MEMORY_THRESHOLD_BYTES
   \<and> (\<exists>rest. sinkOf (snd (memoryIndexInject (memoryWorld 51000 ''# Active Context'' 200) bootEvent))
         = Some ([] @ \<lparr>name = ''MEMORY_INDEX.md'',
                         content = instruction MEMORY_THRESHOLD_BYTES @ nl @ ''---'' @ nl @ nl
                                     @ ''# Memory Index''\<rparr> # rest))"
proof -
  have e: "evType bootEvent = ''agent''" "evAction bootEvent = ''bootstrap''"
    "evContext bootEvent = Some bootContext"
    by (simp_all add: bootEvent_def)
  have c: "workspaceDir bootContext = Some ''/home/u/clawd''" "''/home/u/clawd'' \<noteq> []"
    "bootstrapFiles bootContext = Some []"
    by (simp_all add: bootContext_def)
  have j: "dirJoin ''/home/u/clawd'' ''memory'' = ''/home/u/clawd/memory''"
    by code_simp
  have i: "readFile (memoryWorld 51000 ''# Active Context'' 200)
             (dirJoin ''/home/u/clawd'' ''memory'', ''INDEX.md'') = Some ''# Memory Index''"
    by (simp add: j readFile_def memoryWorld_def)
  have t: "totalMemoryBytesOf (memoryWorld 51000 ''# Active Context'' 200)
             (dirJoin ''/home/u/clawd'' ''memory'') = Some MEMORY_THRESHOLD_BYTES"
    by (simp add: j totalMemoryBytesOf_def readdir_def dirExists_def memoryWorld_def
          endsWith_def stat_def MEMORY_THRESHOLD_BYTES_def)
  show ?thesis
    using injects_index_at_exact_threshold [OF e c i t] i t by simp
qed

text \<open>
  C6, as the code has it. At or above the threshold, with the index document present,
  the hook appends one unit holding the usage instruction followed by the index, and
  then a second unit holding the snapshot exactly when the snapshot file exists and is
  not empty; it appends nothing else, and files and directories are as before.
\<close>

theorem injection_units_in_order:
  assumes "evType ev = ''agent''" and "evAction ev = ''bootstrap''"
    and "evContext ev = Some ctx" and "workspaceDir ctx = Some wsDir" and "wsDir \<noteq> []"
    and "bootstrapFiles ctx = Some sink"
    and "readFile w (dirJoin wsDir ''memory'', ''INDEX.md'') = Some indexContent"
    and "totalMemoryBytesOf w (dirJoin wsDir ''memory'') = Some tot"
    and "MEMORY_THRESHOLD_BYTES \<le> tot"
  shows "sinkOf (snd (memoryIndexInject w ev))
           = Some (sink
                   @ [\<lparr>name = ''MEMORY_INDEX.md'',
                        content = instruction tot @ nl @ ''---'' @ nl @ nl @ indexContent\<rparr>]
                   @ (case readFile w (dirJoin wsDir ''memory'', ''ACTIVE_CONTEXT.md'') of
                        None \<Rightarrow> []
                      | Some ac \<Rightarrow> if ac = [] then []
                                   else [\<lparr>name = ''ACTIVE_CONTEXT.md'', content = ac\<rparr>]))
         \<and> files (fst (memoryIndexInject w ev)) = files w
         \<and> dirs (fst (memoryIndexInject w ev)) = dirs w"
  using inject_at_or_above [OF assms] hook_reads_only [of w ev]
  by (simp add: indexUnit_def)

text \<open>Scenario E: a memory pool of 60 KB with an index and a snapshot.\<close>

theorem injection_units_in_order_witness:
  "sinkOf (snd (memoryIndexInject (memoryWorld 61240 ''# Active Context'' 200) bootEvent))
     = Some [\<lparr>name = ''MEMORY_INDEX.md'',
               content = instruction 61440 @ nl @ ''---'' @ nl @ nl @ ''# Memory Index''\<rparr>,
             \<lparr>name = ''ACTIVE_CONTEXT.md'', content = ''# Active Context''\<rparr>]
   \<and> files (fst (memoryIndexInject (memoryWorld 61240 ''# Active Context'' 200) bootEvent))
       = files (memoryWorld 61240 ''# Active Context'' 200)"
proof -
  have e: "evType bootEvent = ''agent''" "evAction bootEvent = ''bootstrap''"
    "evContext bootEvent = Some bootContext"
    by (simp_all add: bootEvent_def)
  have c: "workspaceDir bootContext = Some ''/home/u/clawd''" "''/home/u/clawd'' \<noteq> []"
    "bootstrapFiles bootContext = Some []"
    by (simp_all add: bootContext_def)
  have j: "dirJoin ''/home/u/clawd'' ''memory'' = ''/home/u/clawd/memory''"
    by code_simp
  have i: "readFile (memoryWorld 61240 ''# Active Context'' 200)
             (dirJoin ''/home/u/clawd'' ''memory'', ''INDEX.md'') = Some ''# Memory Index''"
    by (simp add: j readFile_def memoryWorld_def)
  have t: "totalMemoryBytesOf (memoryWorld 61240 ''# Active Context'' 200)
             (dirJoin ''/home/u/clawd'' ''memory'') = Some 61440"
    by (simp add: j totalMemoryBytesOf_def readdir_def dirExists_def memoryWorld_def
          endsWith_def stat_def MEMORY_THRESHOLD_BYTES_def)
  have b: "MEMORY_THRESHOLD_BYTES \<le> 61440"
    by (simp add: MEMORY_THRESHOLD_BYTES_def)
  have s: "readFile (memoryWorld 61240 ''# Active Context'' 200)
             (dirJoin ''/home/u/clawd'' ''memory'', ''ACTIVE_CONTEXT.md'') = Some ''# Active Context''"
    by (simp add: j readFile_def memoryWorld_def)
  show ?thesis
    using injection_units_in_order [OF e c i t b] s by simp
qed

text \<open>
  C6 as stated fails when the snapshot file exists and is empty: at 60 KB, with the
  index present, the sink receives the index unit alone.
\<close>

theorem empty_snapshot_not_injected_counterexample:
  "access (memoryWorld 61440 [] 0) (''/home/u/clawd/memory'', ''ACTIVE_CONTEXT.md'')
   \<and> readFile (memoryWorld 61440 [] 0) (''/home/u/clawd/memory'', ''ACTIVE_CONTEXT.md'') = Some []
   \<and> totalMemoryBytesOf (memoryWorld 61440 [] 0) ''/home/u/clawd/memory'' = Some 61440
   \<and> sinkOf (snd (memoryIndexInject (memoryWorld 61440 [] 0) bootEvent))
       = Some [indexUnit 61440 ''# Memory Index'']"
proof -
  have e: "evType bootEvent = ''agent''" "evAction bootEvent = ''bootstrap''"
    "evContext bootEvent = Some bootContext"
    by (simp_all add: bootEvent_def)
  have c: "workspaceDir bootContext = Some ''/home/u/clawd''" "''/home/u/clawd'' \<noteq> []"
    "bootstrapFiles bootContext = Some []"
    by (simp_all add: bootContext_def)
  have j: "dirJoin ''/home/u/clawd'' ''memory'' = ''/home/u/clawd/memory''"
    by code_simp
  have a: "access (memoryWorld 61440 [] 0) (''/home/u/clawd/memory'', ''ACTIVE_CONTEXT.md'')"
    by (simp add: access_def memoryWorld_def)
  have i: "readFile (memoryWorld 61440 [] 0) (dirJoin ''/home/u/clawd'' ''memory'', ''INDEX.md'')
             = Some ''# Memory Index''"
    by (simp add: j readFile_def memoryWorld_def)
  have s: "readFile (memoryWorld 61440 [] 0) (''/home/u/clawd/memory'', ''ACTIVE_CONTEXT.md'') = Some []"
    by (simp add: readFile_def memoryWorld_def)
  have t: "totalMemoryBytesOf (memoryWorld 61440 [] 0) (dirJoin ''/home/u/clawd'' ''memory'') = Some 61440"
    by (simp add: j totalMemoryBytesOf_def readdir_def dirExists_def memoryWorld_def
          endsWith_def stat_def)
  have b: "MEMORY_THRESHOLD_BYTES \<le> 61440"
    by (simp add: MEMORY_THRESHOLD_BYTES_def)
  show ?thesis
    using inject_at_or_above [OF e c i t b] a s t
    by (simp add: j)
qed

section \<open>Properties of workspace resolution\<close>

lemma find_no_workspace:
  assumes "\<forall>a\<in>set as. entryMatches toLowerCase i a \<longrightarrow> \<not> truthy (agWorkspace a)"
  shows "(case find (entryMatches toLowerCase i) as of None \<Rightarrow> None
          | Some a \<Rightarrow> if truthy (agWorkspace a) then agWorkspace a else None) = None"
proof (cases "find (entryMatches toLowerCase i) as")
  case None
  then show ?thesis by simp
next
  case (Some a)
  then have "a \<in> set as" "entryMatches toLowerCase i a"
    by (auto simp: find_Some_iff)
  with assms Some show ?thesis by simp
qed

text \<open>
  C10, as the code has it, for every \<open>toLowerCase\<close> of the host. In the checkpoint
  script the result for an identifier other than \<open>main\<close> does not depend on the default
  workspace, and when no matching entry carries a workspace it is
  \<open>path.join(home, "clawd-" + identifier)\<close>. The hook does the same for the identifier it
  first trims and puts in lower case (a missing or empty one becomes \<open>main\<close>).
\<close>

theorem default_workspace_only_for_main:
  "(agentId \<noteq> ''main''
    \<longrightarrow> resolveWorkspace toLowerCase home (cfg\<lparr>defaultsWorkspace := d\<rparr>) agentId
          = resolveWorkspace toLowerCase home (cfg\<lparr>defaultsWorkspace := d'\<rparr>) agentId)
   \<and> (agentId \<noteq> ''main''
      \<and> (\<forall>a\<in>set (agentsList cfg). entryMatches toLowerCase agentId a \<longrightarrow> \<not> truthy (agWorkspace a))
      \<longrightarrow> resolveWorkspace toLowerCase home (cfg\<lparr>defaultsWorkspace := d\<rparr>) agentId
            = dirJoin home (''clawd-'' @ agentId))
   \<and> (normalizedId toLowerCase rawId \<noteq> ''main''
      \<longrightarrow> resolveAgentWorkspaceDir toLowerCase home (cfg\<lparr>defaultsWorkspace := d\<rparr>) rawId
            = resolveAgentWorkspaceDir toLowerCase home (cfg\<lparr>defaultsWorkspace := d'\<rparr>) rawId)
   \<and> (normalizedId toLowerCase rawId \<noteq> ''main''
      \<and> (\<forall>a\<in>set (agentsList cfg).
            entryMatches toLowerCase (normalizedId toLowerCase rawId) a \<longrightarrow> \<not> truthy (agWorkspace a))
      \<longrightarrow> resolveAgentWorkspaceDir toLowerCase home (cfg\<lparr>defaultsWorkspace := d\<rparr>) rawId
            = dirJoin home (''clawd-'' @ normalizedId toLowerCase rawId))"
  by (auto simp: resolveWorkspace_def resolveAgentWorkspaceDir_def Let_def find_no_workspace)

text \<open>
  The agent \<open>desmond\<close> has an entry without a workspace: whatever the default workspace,
  both resolutions give the directory \<open>clawd-desmond\<close> of the home.
\<close>

theorem default_workspace_only_for_main_witness:
  "resolveWorkspace asciiToLowerCase ''/home/u'' (cfgDesmond\<lparr>defaultsWorkspace := Some ''/srv/other''\<rparr>)
       ''desmond''
     = resolveWorkspace asciiToLowerCase ''/home/u'' (cfgDesmond\<lparr>defaultsWorkspace := None\<rparr>) ''desmond''
   \<and> resolveWorkspace asciiToLowerCase ''/home/u'' (cfgDesmond\<lparr>defaultsWorkspace := Some ''/srv/other''\<rparr>)
         ''desmond''
       = ''/home/u/clawd-desmond''
   \<and> normalizedId asciiToLowerCase (Some '' desmond '') = ''desmond''
   \<and> resolveAgentWorkspaceDir asciiToLowerCase ''/home/u''
         (cfgDesmond\<lparr>defaultsWorkspace := Some ''/srv/other''\<rparr>) (Some '' desmond '')
       = resolveAgentWorkspaceDir asciiToLowerCase ''/home/u''
           (cfgDesmond\<lparr>defaultsWorkspace := None\<rparr>) (Some '' desmond '')
   \<and> resolveAgentWorkspaceDir asciiToLowerCase ''/home/u''
         (cfgDesmond\<lparr>defaultsWorkspace := Some ''/srv/other''\<rparr>) (Some '' desmond '')
       = ''/home/u/clawd-desmond''"
proof -
  have n: "normalizedId asciiToLowerCase (Some '' desmond '') = ''desmond''"
    by code_simp
  have m: "\<forall>a\<in>set (agentsList cfgDesmond).
             entryMatches asciiToLowerCase ''desmond'' a \<longrightarrow> \<not> truthy (agWorkspace a)"
    by code_simp
  have j: "dirJoin ''/home/u'' (''clawd-'' @ ''desmond'') = ''/home/u/clawd-desmond''"
    by code_simp
  have d: "''desmond'' \<noteq> ''main''"
    by simp
  note claim = default_workspace_only_for_main
            [where toLowerCase = asciiToLowerCase and agentId = "''desmond''" and cfg = cfgDesmond
               and home = "''/home/u''" and d = "Some ''/srv/other''" and d' = None
               and rawId = "Some '' desmond ''"]
  have c1: "resolveWorkspace asciiToLowerCase ''/home/u''
              (cfgDesmond\<lparr>defaultsWorkspace := Some ''/srv/other''\<rparr>) ''desmond''
            = resolveWorkspace asciiToLowerCase ''/home/u''
                (cfgDesmond\<lparr>defaultsWorkspace := None\<rparr>) ''desmond''"
    using claim d by blast
  have "resolveWorkspace asciiToLowerCase ''/home/u''
              (cfgDesmond\<lparr>defaultsWorkspace := Some ''/srv/other''\<rparr>) ''desmond''
            = dirJoin ''/home/u'' (''clawd-'' @ ''desmond'')"
    using claim d m by blast
  then have c2: "resolveWorkspace asciiToLowerCase ''/home/u''
              (cfgDesmond\<lparr>defaultsWorkspace := Some ''/srv/other''\<rparr>) ''desmond''
            = ''/home/u/clawd-desmond''"
    by (simp only: j)
  have nd: "normalizedId asciiToLowerCase (Some '' desmond '') \<noteq> ''main''"
    by (simp add: n)
  have nm: "\<forall>a\<in>set (agentsList cfgDesmond).
             entryMatches asciiToLowerCase (normalizedId asciiToLowerCase (Some '' desmond '')) a
             \<longrightarrow> \<not> truthy (agWorkspace a)"
    using m by (simp only: n)
  have c3: "resolveAgentWorkspaceDir asciiToLowerCase ''/home/u''
              (cfgDesmond\<lparr>defaultsWorkspace := Some ''/srv/other''\<rparr>) (Some '' desmond '')
            = resolveAgentWorkspaceDir asciiToLowerCase ''/home/u''
                (cfgDesmond\<lparr>defaultsWorkspace := None\<rparr>) (Some '' desmond '')"
    using claim nd by blast
  have "resolveAgentWorkspaceDir asciiToLowerCase ''/home/u''
              (cfgDesmond\<lparr>defaultsWorkspace := Some ''/srv/other''\<rparr>) (Some '' desmond '')
            = dirJoin ''/home/u'' (''clawd-'' @ normalizedId asciiToLowerCase (Some '' desmond ''))"
    using claim nd nm by blast
  then have c4: "resolveAgentWorkspaceDir asciiToLowerCase ''/home/u''
              (cfgDesmond\<lparr>defaultsWorkspace := Some ''/srv/other''\<rparr>) (Some '' desmond '')
            = ''/home/u/clawd-desmond''"
    by (simp only: n j)
  show ?thesis
    using c1 c2 n c3 c4 by (intro conjI)
qed

text \<open>
  C10 as stated fails for the hook. The session key \<open>agent: main :slack:dm:u1\<close> gives the
  handler the identifier \<open>main\<close> between two spaces, which is not \<open>main\<close> and has no
  entry; the resolution trims it and returns the default workspace. In the same way
  \<open>desmond\<close> between two spaces resolves to the directory of \<open>desmond\<close>.
\<close>

theorem hook_normalizes_identifier_counterexample:
  "resolveAgentIdFromSessionKey asciiToLowerCase (Some ''agent: main :slack:dm:u1'') = '' main ''
   \<and> agentsList cfgDefaults = []
   \<and> resolveAgentWorkspaceDir asciiToLowerCase ''/home/u'' cfgDefaults (Some '' main '')
       = ''/home/u/shared-workspace''
   \<and> summaryWorkspaceDir asciiToLowerCase ''/home/u'' (Some cfgDefaults)
         (Some ''agent: main :slack:dm:u1'')
       = ''/home/u/shared-workspace''
   \<and> summaryWorkspaceDir asciiToLowerCase ''/home/u'' (Some cfgDefaults)
         (Some ''agent: desmond :slack:dm:u1'')
       = ''/home/u/clawd-desmond''"
  by code_simp

section \<open>Properties of the index builder\<close>

lemma indexed_Cons:
  "indexed (d # docs) = (if regular d \<and> fname d \<noteq> ''INDEX.md'' then d # indexed docs else indexed docs)"
  by (simp add: indexed_def)

lemma processFile_totals:
  "TOTAL_DECISIONS (processFile g d) = TOTAL_DECISIONS g + corpusCount Decision [d]
   \<and> TOTAL_GOTCHAS (processFile g d) = TOTAL_GOTCHAS g + corpusCount Gotcha [d]
   \<and> TOTAL_SOLUTIONS (processFile g d) = TOTAL_SOLUTIONS g + corpusCount Solution [d]
   \<and> TOTAL_PATTERNS (processFile g d) = TOTAL_PATTERNS g + corpusCount Pattern [d]
   \<and> TOTAL_TODOS (processFile g d) = TOTAL_TODOS g + corpusCount Todo [d]"
  by (simp add: corpusCount_def indexed_def processFile_def count_observations_def Let_def)

lemma corpusCount_Cons: "corpusCount m (d # docs) = corpusCount m [d] + corpusCount m docs"
  by (simp add: corpusCount_def indexed_def)

lemma foldl_processFile_totals:
  "TOTAL_DECISIONS (foldl processFile g docs) = TOTAL_DECISIONS g + corpusCount Decision docs
   \<and> TOTAL_GOTCHAS (foldl processFile g docs) = TOTAL_GOTCHAS g + corpusCount Gotcha docs
   \<and> TOTAL_SOLUTIONS (foldl processFile g docs) = TOTAL_SOLUTIONS g + corpusCount Solution docs
   \<and> TOTAL_PATTERNS (foldl processFile g docs) = TOTAL_PATTERNS g + corpusCount Pattern docs
   \<and> TOTAL_TODOS (foldl processFile g docs) = TOTAL_TODOS g + corpusCount Todo docs"
proof (induction docs arbitrary: g)
  case Nil
  show ?case by (simp add: corpusCount_def indexed_def)
next
  case (Cons d docs)
  have "foldl processFile g (d # docs) = foldl processFile (processFile g d) docs"
    by simp
  then show ?case
    using Cons.IH [of "processFile g d"] processFile_totals [of g d]
    by (simp only: corpusCount_Cons [of _ d docs] add.assoc)
qed

text \<open>
  C7, as the code has it. The totals printed in the header of the index, which are
  those of the markers decision, gotcha, solution, pattern and todo, equal the sums of
  the counts of the documents indexed (regular files other than the index itself); the
  third line of the index is the line that prints them.
\<close>

theorem header_totals_are_sums:
  "observationTotals (scanCorpus docs) =
     [(Decision, corpusCount Decision docs), (Gotcha, corpusCount Gotcha docs),
      (Solution, corpusCount Solution docs), (Pattern, corpusCount Pattern docs),
      (Todo, corpusCount Todo docs)]
   \<and> indexLines generated (scanCorpus docs) ! 2 = observationsLine (scanCorpus docs)"
  using foldl_processFile_totals [of initialGlobals docs]
  by (simp add: observationTotals_def scanCorpus_def initialGlobals_def indexLines_def
        headerLines_def)

lemma processFile_rows:
  assumes "regular d" and "fname d \<noteq> ''INDEX.md''"
  shows "rows (processFile g d) c =
           (if c = categorize (fname d)
            then rows g c
                 @ [rowLine d (let obs = concat (map (\<lambda>m. obsPart m (body d)) allMarkers)
                               in if obs = [] then emDash else obs)]
            else rows g c)"
  using assms by (simp add: processFile_def count_observations_def Let_def)

text \<open>
  C7 as stated fails for the markers tradeoff, fact and preference: a corpus of one
  document with one tradeoff line has no tradeoff total in its header.
\<close>

theorem tradeoff_total_missing_counterexample:
  "corpusCount Tradeoff [tradeoffDoc] = 1
   \<and> map_of (observationTotals (scanCorpus [tradeoffDoc])) Tradeoff = None
   \<and> observationsLine (scanCorpus [tradeoffDoc]) =
       (''> **Observations**: 0''
             @ [CHR 0xF0, CHR 0x9F, CHR 0x9F, CHR 0xA4]
             @ '' decisions | 0''
             @ [CHR 0xF0, CHR 0x9F, CHR 0x94, CHR 0xB4]
             @ '' gotchas | 0''
             @ [CHR 0xF0, CHR 0x9F, CHR 0x9F, CHR 0xA1]
             @ '' solutions | 0''
             @ [CHR 0xF0, CHR 0x9F, CHR 0x94, CHR 0xB5]
             @ '' patterns | 0''
             @ [CHR 0xE2, CHR 0x9A, CHR 0xAA]
             @ '' todos'')"
proof -
  have one: "corpusCount Tradeoff [tradeoffDoc] = 1"
    by code_simp
  have zero: "corpusCount Decision [tradeoffDoc] = 0" "corpusCount Gotcha [tradeoffDoc] = 0"
    "corpusCount Solution [tradeoffDoc] = 0" "corpusCount Pattern [tradeoffDoc] = 0"
    "corpusCount Todo [tradeoffDoc] = 0"
    by code_simp+
  have tot: "observationTotals (scanCorpus [tradeoffDoc]) =
               [(Decision, 0), (Gotcha, 0), (Solution, 0), (Pattern, 0), (Todo, 0)]"
    using foldl_processFile_totals [of initialGlobals "[tradeoffDoc]"] zero
    by (simp add: observationTotals_def scanCorpus_def initialGlobals_def)
  have line: "observationsLine (scanCorpus [tradeoffDoc]) =
       (''> **Observations**: 0''
             @ [CHR 0xF0, CHR 0x9F, CHR 0x9F, CHR 0xA4]
             @ '' decisions | 0''
             @ [CHR 0xF0, CHR 0x9F, CHR 0x94, CHR 0xB4]
             @ '' gotchas | 0''
             @ [CHR 0xF0, CHR 0x9F, CHR 0x9F, CHR 0xA1]
             @ '' solutions | 0''
             @ [CHR 0xF0, CHR 0x9F, CHR 0x94, CHR 0xB5]
             @ '' patterns | 0''
             @ [CHR 0xE2, CHR 0x9A, CHR 0xAA]
             @ '' todos'')"
    by (simp add: observationsLine_def tot showNat.simps digitChar_def)
  show ?thesis
    using one line by (simp add: tot)
qed

text \<open>
  C8, where the code departs from it. Both plans fall in the same section; the sort key
  starts at the observations column, so the older plan, with two decisions, is listed
  before the newer one, with one.
\<close>

theorem older_row_listed_first:
  "categorize (fname planOlder) = Plan \<and> categorize (fname planNewer) = Plan
   \<and> modified planOlder = ''2026-01-01'' \<and> modified planNewer = ''2026-02-01''
   \<and> sectionRows [planNewer, planOlder] Plan =
       [''| plan-a.md | Plan A | 54B | ~13 | 2'' @ [CHR 0xF0, CHR 0x9F, CHR 0x9F, CHR 0xA4] @ ''  | 2026-01-01 |'',
        ''| plan-b.md | Plan B | 33B | ~8 | 1'' @ [CHR 0xF0, CHR 0x9F, CHR 0x9F, CHR 0xA4] @ ''  | 2026-02-01 |'']"
proof -
  have cat: "categorize (fname planOlder) = Plan" "categorize (fname planNewer) = Plan"
    by code_simp+
  have reg: "regular planOlder" "fname planOlder \<noteq> ''INDEX.md''"
    "regular planNewer" "fname planNewer \<noteq> ''INDEX.md''"
    by (simp_all add: planOlder_def planNewer_def)
  have meta: "fname planOlder = ''plan-a.md''" "modified planOlder = ''2026-01-01''"
    "fname planNewer = ''plan-b.md''" "modified planNewer = ''2026-02-01''"
    by (simp_all add: planOlder_def planNewer_def)
  have len: "length (body planOlder) = 54" "length (body planNewer) = 33"
    by (simp_all add: planOlder_def planNewer_def nl_def)
  have fs: "format_size 54 = ''54B''" "format_size 33 = ''33B''"
    by (simp_all add: format_size_def showNat.simps digitChar_def)
  have tk: "showNat (estimate_tokens 54) = ''13''" "showNat (estimate_tokens 33) = ''8''"
    by (simp_all add: estimate_tokens_def showNat.simps digitChar_def)
  have title: "get_title planOlder = ''Plan A''" "get_title planNewer = ''Plan B''"
    by code_simp+
  have obs: "concat (map (\<lambda>m. obsPart m (body planOlder)) allMarkers) = ''2'' @ [CHR 0xF0, CHR 0x9F, CHR 0x9F, CHR 0xA4] @ '' ''"
    "concat (map (\<lambda>m. obsPart m (body planNewer)) allMarkers) = ''1'' @ [CHR 0xF0, CHR 0x9F, CHR 0x9F, CHR 0xA4] @ '' ''"
    by code_simp+
  have rowA: "rowLine planOlder (''2'' @ [CHR 0xF0, CHR 0x9F, CHR 0x9F, CHR 0xA4] @ '' '') =
      ''| plan-a.md | Plan A | 54B | ~13 | 2'' @ [CHR 0xF0, CHR 0x9F, CHR 0x9F, CHR 0xA4] @ ''  | 2026-01-01 |''"
    by (simp add: rowLine_def meta len fs tk title)
  have rowB: "rowLine planNewer (''1'' @ [CHR 0xF0, CHR 0x9F, CHR 0x9F, CHR 0xA4] @ '' '') =
      ''| plan-b.md | Plan B | 33B | ~8 | 1'' @ [CHR 0xF0, CHR 0x9F, CHR 0x9F, CHR 0xA4] @ ''  | 2026-02-01 |''"
    by (simp add: rowLine_def meta len fs tk title)
  have "rows (scanCorpus [planNewer, planOlder]) Plan =
          [rowLine planNewer (''1'' @ [CHR 0xF0, CHR 0x9F, CHR 0x9F, CHR 0xA4] @ '' ''), rowLine planOlder (''2'' @ [CHR 0xF0, CHR 0x9F, CHR 0x9F, CHR 0xA4] @ '' '')]"
    by (simp add: scanCorpus_def processFile_rows reg cat obs initialGlobals_def)
  then have unsorted: "rows (scanCorpus [planNewer, planOlder]) Plan =
      [''| plan-b.md | Plan B | 33B | ~8 | 1'' @ [CHR 0xF0, CHR 0x9F, CHR 0x9F, CHR 0xA4] @ ''  | 2026-02-01 |'',
       ''| plan-a.md | Plan A | 54B | ~13 | 2'' @ [CHR 0xF0, CHR 0x9F, CHR 0x9F, CHR 0xA4] @ ''  | 2026-01-01 |'']"
    by (simp only: rowA rowB)
  have sorted: "sortRows
      [''| plan-b.md | Plan B | 33B | ~8 | 1'' @ [CHR 0xF0, CHR 0x9F, CHR 0x9F, CHR 0xA4] @ ''  | 2026-02-01 |'',
       ''| plan-a.md | Plan A | 54B | ~13 | 2'' @ [CHR 0xF0, CHR 0x9F, CHR 0x9F, CHR 0xA4] @ ''  | 2026-01-01 |''] =
      [''| plan-a.md | Plan A | 54B | ~13 | 2'' @ [CHR 0xF0, CHR 0x9F, CHR 0x9F, CHR 0xA4] @ ''  | 2026-01-01 |'',
       ''| plan-b.md | Plan B | 33B | ~8 | 1'' @ [CHR 0xF0, CHR 0x9F, CHR 0x9F, CHR 0xA4] @ ''  | 2026-02-01 |'']"
    by code_simp
  show ?thesis
    unfolding sectionRows_def unsorted sorted using cat meta by simp
qed

end
